theory Spec2Isabelle
  imports Complex_Main
begin

section \<open>JSON payloads\<close>

text \<open>
  The \<^verbatim>\<open>data\<close> payload of a request is a JSON object (\<^verbatim>\<open>Record<string, any>\<close>, accepted by
  the schema \<^verbatim>\<open>Joi.object().unknown(true)\<close> and stored in a JSONB column). An object is the
  list of its own properties in the order in which JavaScript enumerates them, which for
  keys that are not array indices is the order of insertion; keys are distinct. Strings are
  byte strings (the UTF-8 encoding that the hash and the database see). \<open>JNum\<close> carries an
  integer; numbers with a fractional part or beyond \<open>10 ^ 21\<close> in magnitude print differently
  in JavaScript and are not part of this model, and neither are property names that are
  array indices, which JavaScript enumerates before all others.
\<close>

datatype json =
    JNull
  | JBool bool
  | JNum int
  | JStr string
  | JArr "json list"
  | JObj "(string \<times> json) list"

type_synonym payload = "(string \<times> json) list"

definition digit_char :: "nat \<Rightarrow> char" where
  "digit_char d = ''0123456789'' ! (d mod 10)"

function decimal_nat :: "nat \<Rightarrow> string" where
  "decimal_nat n = (if n < 10 then [digit_char n] else decimal_nat (n div 10) @ [digit_char (n mod 10)])"
  by pat_completeness auto
termination
  by (relation "measure id") auto

definition decimal :: "int \<Rightarrow> string" where
  "decimal i = (if i < 0 then CHR ''-'' # decimal_nat (nat (- i)) else decimal_nat (nat i))"

definition hex_char :: "nat \<Rightarrow> char" where
  "hex_char d = ''0123456789abcdef'' ! (d mod 16)"

text \<open>
  \<^verbatim>\<open>JSON.stringify\<close> on a string: the quotation mark and the backslash are escaped, the
  control characters below \<open>0x20\<close> are written with their short escape or as
  \<^verbatim>\<open>\u00XX\<close>, every other byte is copied.
\<close>

definition escape_char :: "char \<Rightarrow> string" where
  "escape_char c =
     (if c = CHR 0x22 then [CHR 0x5C, CHR 0x22]
      else if c = CHR 0x5C then [CHR 0x5C, CHR 0x5C]
      else if c = CHR 0x08 then [CHR 0x5C, CHR ''b'']
      else if c = CHR 0x09 then [CHR 0x5C, CHR ''t'']
      else if c = CHR 0x0A then [CHR 0x5C, CHR ''n'']
      else if c = CHR 0x0C then [CHR 0x5C, CHR ''f'']
      else if c = CHR 0x0D then [CHR 0x5C, CHR ''r'']
      else if (of_char c :: nat) < 32
        then [CHR 0x5C, CHR ''u'', CHR ''0'', CHR ''0'',
              hex_char (of_char c div 16), hex_char (of_char c mod 16)]
      else [c])"

definition quote :: "string \<Rightarrow> string" where
  "quote s = CHR 0x22 # concat (map escape_char s) @ [CHR 0x22]"

fun join :: "string \<Rightarrow> string list \<Rightarrow> string" where
  "join sep [] = []"
| "join sep [x] = x"
| "join sep (x # y # ys) = x @ sep @ join sep (y # ys)"

fun JSON_stringify :: "json \<Rightarrow> string" where
  "JSON_stringify JNull = ''null''"
| "JSON_stringify (JBool b) = (if b then ''true'' else ''false'')"
| "JSON_stringify (JNum i) = decimal i"
| "JSON_stringify (JStr s) = quote s"
| "JSON_stringify (JArr xs) = ''['' @ join '','' (map JSON_stringify xs) @ '']''"
| "JSON_stringify (JObj kvs) =
     ''{'' @ join '','' (map (\<lambda>kv. quote (fst kv) @ '':'' @ JSON_stringify (snd kv)) kvs) @ ''}''"

section \<open>Errors\<close>

text \<open>
  Everything that the source throws, the \<^verbatim>\<open>TypeError\<close> that the JavaScript runtime throws
  on a call of a value that is no function or on \<^verbatim>\<open>null\<close>, and the two constraint
  violations that the schema can raise on the inserts modelled here (with the name of the
  constraint). Failures of the connections to the database, to Redis and to the queue are
  not modelled.
\<close>

datatype exn =
    NotFoundError string
  | BadRequestError string
  | UniqueViolation string
  | ForeignKeyViolation string
  | TypeError string
  | Error string

fun exn_message :: "exn \<Rightarrow> string" where
  "exn_message (NotFoundError m) = m"
| "exn_message (BadRequestError m) = m"
| "exn_message (UniqueViolation c) = ''duplicate key value violates unique constraint '' @ quote c"
| "exn_message (ForeignKeyViolation c) =
     ''insert or update on table '' @ quote ''delivery_logs'' @
     '' violates foreign key constraint '' @ quote c"
| "exn_message (TypeError m) = m"
| "exn_message (Error m) = m"

text \<open>\<^verbatim>\<open>String(error)\<close>: the name of the error's class and its message.\<close>

fun exn_string :: "exn \<Rightarrow> string" where
  "exn_string (TypeError m) = ''TypeError: '' @ m"
| "exn_string (UniqueViolation c) = ''error: '' @ exn_message (UniqueViolation c)"
| "exn_string (ForeignKeyViolation c) = ''error: '' @ exn_message (ForeignKeyViolation c)"
| "exn_string e = ''Error: '' @ exn_message e"

section \<open>Values as strings\<close>

text \<open>
  \<^verbatim>\<open>value.toString()\<close> as \<^verbatim>\<open>renderTemplate\<close> calls it on a payload value that is not
  \<^verbatim>\<open>null\<close>. A string is itself, a number and a boolean are printed, an array is its elements
  joined by commas (\<^verbatim>\<open>null\<close> elements empty, the others converted in turn), and an object
  answers \<^verbatim>\<open>[object Object]\<close> through the method it inherits. An object that has an own
  property named \<^verbatim>\<open>toString\<close> hides that method behind a JSON value, which cannot be called:
  the call on such an object throws, and so does the conversion of an array that holds one
  at any depth. \<open>convertible\<close> tells whether the conversion completes and \<open>toString_text\<close>
  is its result then.
\<close>

fun convertible :: "json \<Rightarrow> bool" where
  "convertible (JArr xs) = list_all convertible xs"
| "convertible (JObj kvs) = (map_of kvs ''toString'' = None)"
| "convertible v = True"

fun toString_text :: "json \<Rightarrow> string" where
  "toString_text JNull = ''null''"
| "toString_text (JBool b) = (if b then ''true'' else ''false'')"
| "toString_text (JNum i) = decimal i"
| "toString_text (JStr s) = s"
| "toString_text (JArr xs) = join '','' (map (\<lambda>x. if x = JNull then [] else toString_text x) xs)"
| "toString_text (JObj kvs) = ''[object Object]''"

definition toString :: "json \<Rightarrow> exn + string" where
  "toString v =
     (if convertible v then Inr (toString_text v)
      else Inl (TypeError (case v of
                             JObj kvs \<Rightarrow> ''data[key]?.toString is not a function''
                           | _ \<Rightarrow> ''Cannot convert object to primitive value'')))"

text \<open>
  \<^verbatim>\<open>data[key]\<close> on a payload: an own property, or else one of the members that every
  object inherits from \<^verbatim>\<open>Object.prototype\<close>, or else \<^verbatim>\<open>undefined\<close>. The inherited members are
  functions, but for \<^verbatim>\<open>__proto__\<close>, which is the prototype object; what is kept of an inherited
  member is the text that its \<^verbatim>\<open>toString()\<close> returns.
\<close>

datatype property = Own json | Inherited string | Undefined

definition native_function :: "string \<Rightarrow> string" where
  "native_function name = ''function '' @ name @ ''() { [native code] }''"

definition Object_prototype :: "(string \<times> string) list" where
  "Object_prototype =
     [(''constructor'', native_function ''Object''),
      (''__defineGetter__'', native_function ''__defineGetter__''),
      (''__defineSetter__'', native_function ''__defineSetter__''),
      (''hasOwnProperty'', native_function ''hasOwnProperty''),
      (''__lookupGetter__'', native_function ''__lookupGetter__''),
      (''__lookupSetter__'', native_function ''__lookupSetter__''),
      (''isPrototypeOf'', native_function ''isPrototypeOf''),
      (''propertyIsEnumerable'', native_function ''propertyIsEnumerable''),
      (''toString'', native_function ''toString''),
      (''valueOf'', native_function ''valueOf''),
      (''__proto__'', ''[object Object]''),
      (''toLocaleString'', native_function ''toLocaleString'')]"

definition get_property :: "payload \<Rightarrow> string \<Rightarrow> property" where
  "get_property data key =
     (case map_of data key of
        Some v \<Rightarrow> Own v
      | None \<Rightarrow>
          (case map_of Object_prototype key of
             Some text \<Rightarrow> Inherited text
           | None \<Rightarrow> Undefined))"

section \<open>Template rendering\<close>

text \<open>
  \<^verbatim>\<open>renderTemplate\<close> (channels module):
  \<^verbatim>\<open>template.replace(/\{\{(\w+)\}\}/g, (match, key) => data[key]?.toString() || match)\<close>.
  The global replace scans from the left; at each position the pattern matches exactly when
  the text there is two opening braces, a non-empty maximal run of word characters
  \<^verbatim>\<open>[A-Za-z0-9_]\<close> and two closing braces; a match is replaced and scanning resumes behind
  it, otherwise the character is copied. An error thrown by the callback ends the whole
  call.
\<close>

definition is_word_char :: "char \<Rightarrow> bool" where
  "is_word_char c =
     ((48 \<le> (of_char c :: nat) \<and> (of_char c :: nat) \<le> 57) \<or>
      (65 \<le> (of_char c :: nat) \<and> (of_char c :: nat) \<le> 90) \<or>
      (of_char c :: nat) = 95 \<or>
      (97 \<le> (of_char c :: nat) \<and> (of_char c :: nat) \<le> 122))"

definition match_placeholder :: "string \<Rightarrow> (string \<times> string) option" where
  "match_placeholder s =
     (if take 2 s = ''{{'' \<and> takeWhile is_word_char (drop 2 s) \<noteq> [] \<and>
         take 2 (dropWhile is_word_char (drop 2 s)) = ''}}''
      then Some (takeWhile is_word_char (drop 2 s), drop 2 (dropWhile is_word_char (drop 2 s)))
      else None)"

text \<open>
  The replacement callback: \<^verbatim>\<open>?.\<close> yields \<^verbatim>\<open>undefined\<close> for a missing or \<^verbatim>\<open>null\<close> value, and
  \<^verbatim>\<open>||\<close> falls back to the matched text for \<^verbatim>\<open>undefined\<close> and for the empty string.
\<close>

definition substitute :: "payload \<Rightarrow> string \<Rightarrow> exn + string" where
  "substitute data key =
     (case get_property data key of
        Undefined \<Rightarrow> Inr (''{{'' @ key @ ''}}'')
      | Inherited text \<Rightarrow> Inr text
      | Own v \<Rightarrow>
          if v = JNull then Inr (''{{'' @ key @ ''}}'')
          else
            (case toString v of
               Inl e \<Rightarrow> Inl e
             | Inr text \<Rightarrow> Inr (if text = [] then ''{{'' @ key @ ''}}'' else text)))"

lemma match_placeholder_shorter:
  "match_placeholder s = Some (key, rest) \<Longrightarrow> length rest < length s"
proof -
  assume m: "match_placeholder s = Some (key, rest)"
  then have r: "rest = drop 2 (dropWhile is_word_char (drop 2 s))" and t: "take 2 s = ''{{''"
    by (auto simp: match_placeholder_def split: if_splits)
  from t have "2 \<le> length s"
    by (cases s; cases "tl s"; simp)
  moreover have "length (dropWhile is_word_char (drop 2 s)) \<le> length (drop 2 s)"
    by (rule length_dropWhile_le)
  ultimately show ?thesis
    unfolding r by simp
qed

function renderTemplate :: "string \<Rightarrow> payload \<Rightarrow> exn + string" where
  "renderTemplate [] data = Inr []"
| "renderTemplate (c # cs) data =
     (case match_placeholder (c # cs) of
        Some (key, rest) \<Rightarrow>
          (case substitute data key of
             Inl e \<Rightarrow> Inl e
           | Inr text \<Rightarrow>
               (case renderTemplate rest data of
                  Inl e \<Rightarrow> Inl e
                | Inr rendered \<Rightarrow> Inr (text @ rendered)))
      | None \<Rightarrow>
          (case renderTemplate cs data of
             Inl e \<Rightarrow> Inl e
           | Inr rendered \<Rightarrow> Inr (c # rendered)))"
  by pat_completeness auto
termination
  by (relation "measure (\<lambda>(s, data). length s)") (auto dest: match_placeholder_shorter)

section \<open>Idempotency keys\<close>

subsection \<open>Key derivation\<close>

text \<open>
  \<^verbatim>\<open>generateIdempotencyKey\<close> (utils/idempotency.ts): the hash of
  \<^verbatim>\<open>`${userId}:${template}:${JSON.stringify(data)}`\<close>. The hash,
  \<^verbatim>\<open>crypto.createHash('sha256').update(content).digest('hex')\<close>, is a routine of the Node
  library and not code of this repository: it is the parameter \<open>H\<close>, a function from the
  hashed string to the digest, of this function and of everything that derives a key.
\<close>

definition key_content :: "string \<Rightarrow> string \<Rightarrow> payload \<Rightarrow> string" where
  "key_content userId template data = userId @ '':'' @ template @ '':'' @ JSON_stringify (JObj data)"

definition generateIdempotencyKey ::
  "(string \<Rightarrow> string) \<Rightarrow> string \<Rightarrow> string \<Rightarrow> payload \<Rightarrow> string" where
  "generateIdempotencyKey H userId template data = H (key_content userId template data)"

section \<open>Data model\<close>

text \<open>
  The enumerations of \<^verbatim>\<open>types.ts\<close>, with the values that the schema's check constraints list,
  and the rows of the three tables of the migration script. A row's optional column is an
  \<open>option\<close>. Timestamps are points of a discrete clock.
\<close>

datatype NotificationChannel = EMAIL | SMS | PUSH

datatype NotificationStatus = PENDING | QUEUED | PROCESSING | SENT | FAILED | RETRYING

fun channel_name :: "NotificationChannel \<Rightarrow> string" where
  "channel_name EMAIL = ''email''"
| "channel_name SMS = ''sms''"
| "channel_name PUSH = ''push''"

record Notification =
  n_id :: string
  n_user_id :: string
  n_channel :: NotificationChannel
  n_template_id :: string
  n_data :: payload
  n_status :: NotificationStatus
  n_idempotency_key :: string
  n_error_message :: "string option"
  n_retry_count :: int
  n_created_at :: nat
  n_updated_at :: nat

record Template =
  t_id :: string
  t_name :: string
  t_channel :: NotificationChannel
  t_subject :: "string option"
  t_body :: string
  t_variables :: "string list"

record DeliveryLog =
  l_id :: string
  l_notification_id :: string
  l_attempt :: nat
  l_status :: NotificationStatus
  l_error_message :: "string option"
  l_provider_response :: "payload option"
  l_created_at :: nat

record CreateNotificationDTO =
  user_id :: string
  channel :: NotificationChannel
  template :: string
  data :: payload

text \<open>What \<^verbatim>\<open>notificationQueue.add\<close> is given: the job name, the job data and the options.\<close>

record QueuedJob =
  q_name :: string
  q_notificationId :: string
  q_attempts :: nat
  q_backoff_delay :: nat

text \<open>
  The state that the service and the worker share: the three tables (rows in insertion
  order), the Redis cache and the jobs added to the queue.
\<close>

record system =
  notifications :: "Notification list"
  templates :: "Template list"
  delivery_logs :: "DeliveryLog list"
  redis :: "string \<rightharpoonup> string"
  queue :: "QueuedJob list"

text \<open>
  What a call takes from outside the program: the values that \<^verbatim>\<open>gen_random_uuid()\<close> yields
  (the \<open>k\<close>-th element for a table that holds \<open>k\<close> rows; the generator is taken to return
  ids that the table does not hold, so primary keys never collide) and the value of
  \<^verbatim>\<open>CURRENT_TIMESTAMP\<close>, one per call.
\<close>

record world =
  gen_uuid :: "nat \<Rightarrow> string"
  clock :: nat

text \<open>\<^verbatim>\<open>x || null\<close> on an optional string: \<^verbatim>\<open>undefined\<close> and the empty string become \<^verbatim>\<open>null\<close>.
  The same function is the test \<^verbatim>\<open>if (x)\<close> on a string that may be \<^verbatim>\<open>null\<close>.\<close>

fun or_null :: "string option \<Rightarrow> string option" where
  "or_null None = None"
| "or_null (Some m) = (if m = [] then None else Some m)"

section \<open>Models\<close>

subsection \<open>JSONB columns\<close>

text \<open>
  \<^verbatim>\<open>notifications.data\<close> and \<^verbatim>\<open>delivery_logs.provider_response\<close> are JSONB columns. An insert
  takes the text that \<^verbatim>\<open>JSON.stringify\<close> wrote, and \<^verbatim>\<open>RETURNING *\<close> gives back what the
  column stores: the same value with the properties of every object ordered by the length
  of their names and, among names of one length, by their bytes. (Of a name that occurs
  twice the column keeps the last value; the names of a payload are distinct.)
\<close>

fun bytes_le :: "string \<Rightarrow> string \<Rightarrow> bool" where
  "bytes_le [] ys = True"
| "bytes_le (x # xs) [] = False"
| "bytes_le (x # xs) (y # ys) =
     ((of_char x :: nat) < of_char y \<or> (x = y \<and> bytes_le xs ys))"

definition jsonb_key_le :: "string \<Rightarrow> string \<Rightarrow> bool" where
  "jsonb_key_le a b = (length a < length b \<or> (length a = length b \<and> bytes_le a b))"

fun jsonb_insert :: "string \<times> json \<Rightarrow> payload \<Rightarrow> payload" where
  "jsonb_insert kv [] = [kv]"
| "jsonb_insert kv (x # xs) =
     (if jsonb_key_le (fst kv) (fst x) then kv # x # xs else x # jsonb_insert kv xs)"

fun jsonb :: "json \<Rightarrow> json" where
  "jsonb (JObj kvs) = JObj (foldr jsonb_insert (map (\<lambda>kv. (fst kv, jsonb (snd kv))) kvs) [])"
| "jsonb (JArr xs) = JArr (map jsonb xs)"
| "jsonb v = v"

definition jsonb_object :: "payload \<Rightarrow> payload" where
  "jsonb_object d = foldr jsonb_insert (map (\<lambda>kv. (fst kv, jsonb (snd kv))) d) []"

subsection \<open>NotificationModel\<close>

definition NotificationModel_create ::
  "world \<Rightarrow> CreateNotificationDTO \<Rightarrow> string \<Rightarrow> system \<Rightarrow> exn + (Notification \<times> system)" where
  "NotificationModel_create w dto idempotencyKey s =
     (if list_ex (\<lambda>n. n_idempotency_key n = idempotencyKey) (notifications s)
      then Inl (UniqueViolation ''notifications_idempotency_key_key'')
      else
        let row = \<lparr> n_id = gen_uuid w (length (notifications s)),
                    n_user_id = user_id dto,
                    n_channel = channel dto,
                    n_template_id = template dto,
                    n_data = jsonb_object (data dto),
                    n_status = PENDING,
                    n_idempotency_key = idempotencyKey,
                    n_error_message = None,
                    n_retry_count = 0,
                    n_created_at = clock w,
                    n_updated_at = clock w \<rparr>
        in Inr (row, s\<lparr>notifications := notifications s @ [row]\<rparr>))"

definition NotificationModel_findById :: "string \<Rightarrow> system \<Rightarrow> exn + Notification" where
  "NotificationModel_findById i s =
     (case find (\<lambda>n. n_id n = i) (notifications s) of
        None \<Rightarrow> Inl (NotFoundError (''Notification with ID '' @ i @ '' not found''))
      | Some n \<Rightarrow> Inr n)"

definition NotificationModel_findByIdempotencyKey :: "string \<Rightarrow> system \<Rightarrow> Notification option" where
  "NotificationModel_findByIdempotencyKey key s =
     find (\<lambda>n. n_idempotency_key n = key) (notifications s)"

definition NotificationModel_updateStatus ::
  "world \<Rightarrow> string \<Rightarrow> NotificationStatus \<Rightarrow> string option \<Rightarrow> system \<Rightarrow> exn + (Notification \<times> system)" where
  "NotificationModel_updateStatus w i st errorMessage s =
     (case find (\<lambda>n. n_id n = i) (notifications s) of
        None \<Rightarrow> Inl (NotFoundError (''Notification with ID '' @ i @ '' not found''))
      | Some n \<Rightarrow>
          Inr (n\<lparr>n_status := st, n_error_message := or_null errorMessage, n_updated_at := clock w\<rparr>,
               s\<lparr>notifications :=
                   map (\<lambda>m. if n_id m = i
                             then m\<lparr>n_status := st, n_error_message := or_null errorMessage,
                                    n_updated_at := clock w\<rparr>
                             else m) (notifications s)\<rparr>))"

definition NotificationModel_incrementRetryCount ::
  "world \<Rightarrow> string \<Rightarrow> system \<Rightarrow> exn + (Notification \<times> system)" where
  "NotificationModel_incrementRetryCount w i s =
     (case find (\<lambda>n. n_id n = i) (notifications s) of
        None \<Rightarrow> Inl (NotFoundError (''Notification with ID '' @ i @ '' not found''))
      | Some n \<Rightarrow>
          Inr (n\<lparr>n_retry_count := n_retry_count n + 1, n_updated_at := clock w\<rparr>,
               s\<lparr>notifications :=
                   map (\<lambda>m. if n_id m = i
                             then m\<lparr>n_retry_count := n_retry_count m + 1, n_updated_at := clock w\<rparr>
                             else m) (notifications s)\<rparr>))"

subsection \<open>TemplateModel\<close>

definition TemplateModel_findById :: "string \<Rightarrow> system \<Rightarrow> exn + Template" where
  "TemplateModel_findById i s =
     (case find (\<lambda>t. t_id t = i) (templates s) of
        None \<Rightarrow> Inl (NotFoundError (''Template with ID '' @ i @ '' not found''))
      | Some t \<Rightarrow> Inr t)"

text \<open>
  \<^verbatim>\<open>validateVariables\<close>: the pair of \<^verbatim>\<open>valid\<close> and \<^verbatim>\<open>missingVars\<close>; a variable is missing
  when \<^verbatim>\<open>data[varName] === undefined\<close>.
\<close>

definition TemplateModel_validateVariables :: "Template \<Rightarrow> payload \<Rightarrow> bool \<times> string list" where
  "TemplateModel_validateVariables t d =
     (filter (\<lambda>varName. get_property d varName = Undefined) (t_variables t) = [],
      filter (\<lambda>varName. get_property d varName = Undefined) (t_variables t))"

subsection \<open>DeliveryLogModel\<close>

text \<open>
  A provider response is an object (the provider's response or error object, or an object
  literal of the source), so \<^verbatim>\<open>providerResponse ? JSON.stringify(providerResponse) : null\<close>
  stores it whenever it is given.
\<close>

definition DeliveryLogModel_create ::
  "world \<Rightarrow> string \<Rightarrow> nat \<Rightarrow> NotificationStatus \<Rightarrow> string option \<Rightarrow> payload option \<Rightarrow> system
     \<Rightarrow> exn + (DeliveryLog \<times> system)" where
  "DeliveryLogModel_create w notificationId att st errorMessage providerResponse s =
     (if list_ex (\<lambda>n. n_id n = notificationId) (notifications s)
      then
        let row = \<lparr> l_id = gen_uuid w (length (delivery_logs s)),
                    l_notification_id = notificationId,
                    l_attempt = att,
                    l_status = st,
                    l_error_message = or_null errorMessage,
                    l_provider_response = map_option jsonb_object providerResponse,
                    l_created_at = clock w \<rparr>
        in Inr (row, s\<lparr>delivery_logs := delivery_logs s @ [row]\<rparr>)
      else Inl (ForeignKeyViolation ''delivery_logs_notification_id_fkey''))"


section \<open>Idempotency cache and queue\<close>

text \<open>
  \<^verbatim>\<open>checkIdempotency\<close> and \<^verbatim>\<open>storeIdempotencyKey\<close> (utils/idempotency.ts) read and write the
  Redis key \<^verbatim>\<open>idempotency:<key>\<close>. The expiry of an entry after its time-to-live is an event
  of real time and is not modelled: an entry stays until it is overwritten.
\<close>

definition checkIdempotency :: "string \<Rightarrow> system \<Rightarrow> string option" where
  "checkIdempotency key s = redis s (''idempotency:'' @ key)"

definition storeIdempotencyKey :: "string \<Rightarrow> string \<Rightarrow> system \<Rightarrow> system" where
  "storeIdempotencyKey key notificationId s =
     s\<lparr>redis := (redis s)(''idempotency:'' @ key \<mapsto> notificationId)\<rparr>"

definition notificationQueue_add :: "QueuedJob \<Rightarrow> system \<Rightarrow> system" where
  "notificationQueue_add j s = s\<lparr>queue := queue s @ [j]\<rparr>"

section \<open>NotificationService\<close>

text \<open>
  \<^verbatim>\<open>NotificationService.createNotification\<close>, step by step as in the source. The result is the
  returned notification or the error thrown, with the state left behind.

  The function is asynchronous: between its database calls other callers run. The first
  argument \<open>other\<close> is what concurrent callers have committed between the duplicate check
  of step 3 and the insert of step 7, the window of the race on one key; a caller that runs
  alone has \<open>other = (\<lambda>s. s)\<close>. The argument \<open>H\<close> is the hash of the key derivation.
\<close>

definition createNotification ::
  "(string \<Rightarrow> string) \<Rightarrow> (system \<Rightarrow> system) \<Rightarrow> world \<Rightarrow> CreateNotificationDTO \<Rightarrow> system
     \<Rightarrow> (exn + Notification) \<times> system" where
  "createNotification H other w dto s =
     (let idempotencyKey = generateIdempotencyKey H (user_id dto) (template dto) (data dto);
          cachedNotificationId = checkIdempotency idempotencyKey s
      in
      case or_null cachedNotificationId of
        Some cachedId \<Rightarrow> (NotificationModel_findById cachedId s, s)
      | None \<Rightarrow>
       (case NotificationModel_findByIdempotencyKey idempotencyKey s of
          Some existingNotification \<Rightarrow>
            (Inr existingNotification,
             storeIdempotencyKey idempotencyKey (n_id existingNotification) s)
        | None \<Rightarrow>
            (case TemplateModel_findById (template dto) s of
               Inl e \<Rightarrow>
                 (case e of
                    NotFoundError m \<Rightarrow>
                      (Inl (BadRequestError (''Template '' @ [CHR 0x27] @ template dto @ [CHR 0x27] @ '' not found'')), s)
                  | _ \<Rightarrow> (Inl e, s))
             | Inr t \<Rightarrow>
                 if t_channel t \<noteq> channel dto
                 then (Inl (BadRequestError
                         (''Template '' @ [CHR 0x27] @ template dto @ [CHR 0x27] @ '' is for '' @
                          channel_name (t_channel t) @ '', not '' @ channel_name (channel dto))), s)
                 else if \<not> fst (TemplateModel_validateVariables t (data dto))
                 then (Inl (BadRequestError
                         (''Missing required template variables: '' @
                          join '', '' (snd (TemplateModel_validateVariables t (data dto))))), s)
                 else
                   (case NotificationModel_create w dto idempotencyKey (other s) of
                      Inl e \<Rightarrow> (Inl e, other s)
                    | Inr (notification, s1) \<Rightarrow>
                        (Inr notification,
                         storeIdempotencyKey idempotencyKey (n_id notification)
                           (notificationQueue_add
                              \<lparr> q_name = ''send-notification'',
                                q_notificationId = n_id notification,
                                q_attempts = 3,
                                q_backoff_delay = 2000 \<rparr> s1))))))"

text \<open>
  \<^verbatim>\<open>NotificationService.incrementRetryCount\<close>: it reads the notification, builds an update
  object that it never uses, and calls \<^verbatim>\<open>NotificationModel.updateStatus(id, RETRYING)\<close>.
\<close>

definition NotificationService_incrementRetryCount ::
  "world \<Rightarrow> string \<Rightarrow> system \<Rightarrow> (exn + Notification) \<times> system" where
  "NotificationService_incrementRetryCount w i s =
     (case NotificationModel_findById i s of
        Inl e \<Rightarrow> (Inl e, s)
      | Inr notification \<Rightarrow>
          (case NotificationModel_updateStatus w i RETRYING None s of
             Inl e \<Rightarrow> (Inl e, s)
           | Inr (n', s') \<Rightarrow> (Inr n', s')))"


section \<open>Channels\<close>

text \<open>
  The result of \<^verbatim>\<open>send\<close> (\<^verbatim>\<open>ChannelSendResult\<close>); its three optional fields are options.
\<close>

record ChannelSendResult =
  success :: bool
  messageId :: "string option"
  error :: "string option"
  providerResponse :: "payload option"

text \<open>
  The providers are outside the program. A provider call either resolves, with a message
  id and the raw response, or rejects, with an error object. \<open>sendgrid\<close> is
  \<^verbatim>\<open>sgMail.send\<close> as a function of recipient, subject and body, \<open>twilio\<close> is
  \<^verbatim>\<open>client.messages.create\<close> as a function of recipient and body. The push channel simulates
  its provider: \<open>random\<close> is the value of \<^verbatim>\<open>Math.random()\<close> that decides the outcome, and the
  message id, multicast id and timestamp that it makes up from the clock and further random
  numbers are given. \<open>token\<close> is the random suffix of the mock device token.
\<close>

datatype provider_reply = Resolved string payload | Rejected payload

record providers =
  sendgrid :: "string \<Rightarrow> string \<Rightarrow> string \<Rightarrow> provider_reply"
  twilio :: "string \<Rightarrow> string \<Rightarrow> provider_reply"
  random :: rat
  push_message_id :: string
  push_multicast_id :: int
  push_timestamp :: string
  token :: string

text \<open>
  An error of the runtime that a \<^verbatim>\<open>catch\<close> block stores as the provider response: an
  \<^verbatim>\<open>Error\<close> object has no enumerable property, so as JSON it is the empty object.
\<close>

definition caught_error :: "exn \<Rightarrow> payload" where
  "caught_error e = []"

text \<open>
  \<^verbatim>\<open>EmailChannel.send\<close>: the message is built before the \<^verbatim>\<open>try\<close>, first
  \<^verbatim>\<open>renderTemplate(template.subject!, data)\<close>, then \<^verbatim>\<open>renderTemplate(template.body, data)\<close>.
  A template without subject makes \<^verbatim>\<open>renderTemplate\<close> call \<^verbatim>\<open>replace\<close> on \<^verbatim>\<open>null\<close>, which
  throws; and whatever either rendering throws leaves the method, too. Neither this method
  nor \<^verbatim>\<open>SMSChannel.send\<close> calls \<^verbatim>\<open>validateRecipient\<close>.
\<close>

definition EmailChannel_send ::
  "providers \<Rightarrow> string \<Rightarrow> Template \<Rightarrow> payload \<Rightarrow> exn + ChannelSendResult" where
  "EmailChannel_send p recipient t d =
     (case t_subject t of
        None \<Rightarrow> Inl (TypeError ''Cannot read properties of null (reading 'replace')'')
      | Some subj \<Rightarrow>
          (case renderTemplate subj d of
             Inl e \<Rightarrow> Inl e
           | Inr subject \<Rightarrow>
               (case renderTemplate (t_body t) d of
                  Inl e \<Rightarrow> Inl e
                | Inr html \<Rightarrow>
                    (case sendgrid p recipient subject html of
                       Resolved mid response \<Rightarrow>
                         Inr \<lparr> success = True, messageId = Some mid, error = None,
                               providerResponse = Some response \<rparr>
                     | Rejected err \<Rightarrow>
                         Inr \<lparr> success = False, messageId = Some [], error = None,
                               providerResponse = Some err \<rparr>))))"

text \<open>
  \<^verbatim>\<open>SMSChannel.send\<close>: the body is rendered inside the \<^verbatim>\<open>try\<close>, so an error of the rendering
  is caught like a rejection by Twilio.
\<close>

definition SMSChannel_send ::
  "providers \<Rightarrow> string \<Rightarrow> Template \<Rightarrow> payload \<Rightarrow> exn + ChannelSendResult" where
  "SMSChannel_send p recipient t d =
     (case renderTemplate (t_body t) d of
        Inl e \<Rightarrow>
          Inr \<lparr> success = False, messageId = Some [], error = None,
                providerResponse = Some (caught_error e) \<rparr>
      | Inr body \<Rightarrow>
          (case twilio p recipient body of
             Resolved sid message \<Rightarrow>
               Inr \<lparr> success = True, messageId = Some sid, error = None,
                     providerResponse = Some message \<rparr>
           | Rejected err \<Rightarrow>
               Inr \<lparr> success = False, messageId = Some [], error = None,
                     providerResponse = Some err \<rparr>))"

definition PushChannel_validateRecipient :: "string \<Rightarrow> bool" where
  "PushChannel_validateRecipient tok = (length tok > 20 \<and> length tok < 300)"

text \<open>
  \<^verbatim>\<open>PushChannel.send\<close>: everything is inside one \<^verbatim>\<open>try\<close>; an error of the rendering and the
  simulated failure, an \<^verbatim>\<open>Error\<close> thrown there, are caught alike. Parsing the rendered body
  only feeds the console.
\<close>

definition push_failure :: "string \<Rightarrow> ChannelSendResult" where
  "push_failure message =
     \<lparr> success = False, messageId = None, error = Some message,
       providerResponse = Some [(''provider'', JStr ''FCM''), (''error'', JStr message)] \<rparr>"

definition PushChannel_send ::
  "providers \<Rightarrow> string \<Rightarrow> Template \<Rightarrow> payload \<Rightarrow> exn + ChannelSendResult" where
  "PushChannel_send p recipient t d =
     (if \<not> PushChannel_validateRecipient recipient
      then Inr \<lparr> success = False, messageId = None,
                 error = Some (''Invalid device token: '' @ take 20 recipient @ ''...''),
                 providerResponse = None \<rparr>
      else
        (case renderTemplate (t_body t) d of
           Inl e \<Rightarrow> Inr (push_failure (exn_message e))
         | Inr body \<Rightarrow>
             if random p > 1 / 10
             then Inr \<lparr> success = True, messageId = Some (push_message_id p), error = None,
                        providerResponse = Some [(''provider'', JStr ''FCM''),
                                                 (''multicastId'', JNum (push_multicast_id p)),
                                                 (''success'', JNum 1),
                                                 (''failure'', JNum 0),
                                                 (''timestamp'', JStr (push_timestamp p))] \<rparr>
             else Inr (push_failure ''Invalid device token or app not installed'')))"

text \<open>\<^verbatim>\<open>ChannelFactory.getChannel(channel).send\<close>: the registry holds the three variants.\<close>

fun channel_send ::
  "NotificationChannel \<Rightarrow> providers \<Rightarrow> string \<Rightarrow> Template \<Rightarrow> payload \<Rightarrow> exn + ChannelSendResult" where
  "channel_send EMAIL = EmailChannel_send"
| "channel_send SMS = SMSChannel_send"
| "channel_send PUSH = PushChannel_send"

section \<open>Worker\<close>

text \<open>The fields of the queue's job that \<^verbatim>\<open>processNotification\<close> reads.\<close>

record Job =
  notificationId :: string
  attemptsMade :: nat
  opts_attempts :: "nat option"

text \<open>\<^verbatim>\<open>job.opts.attempts || 1\<close>\<close>

fun attempts_or_1 :: "nat option \<Rightarrow> nat" where
  "attempts_or_1 None = 1"
| "attempts_or_1 (Some a) = (if a = 0 then 1 else a)"

definition padStart :: "nat \<Rightarrow> char \<Rightarrow> string \<Rightarrow> string" where
  "padStart n c t = replicate (n - length t) c @ t"

fun getRecipientForUser :: "providers \<Rightarrow> string \<Rightarrow> NotificationChannel \<Rightarrow> string" where
  "getRecipientForUser p userId EMAIL = ''user'' @ userId @ ''@example.com''"
| "getRecipientForUser p userId SMS = ''+1555'' @ padStart 7 CHR ''0'' userId"
| "getRecipientForUser p userId PUSH = ''fcm_token_'' @ userId @ ''_'' @ token p"

record WorkerResult =
  r_success :: bool
  r_messageId :: "string option"

text \<open>
  The \<^verbatim>\<open>catch\<close> block of \<^verbatim>\<open>processNotification\<close>: a delivery log with status \<^verbatim>\<open>failed\<close> is
  written, a failure of that insert is swallowed, and the error is thrown again.
\<close>

definition on_error :: "world \<Rightarrow> Job \<Rightarrow> exn \<Rightarrow> system \<Rightarrow> (exn + WorkerResult) \<times> system" where
  "on_error w job e s =
     (Inl e,
      case DeliveryLogModel_create w (notificationId job) (attemptsMade job + 1) FAILED
             (Some (exn_message e)) (Some [(''error'', JStr (exn_string e))]) s of
        Inl logError \<Rightarrow> s
      | Inr (l, s') \<Rightarrow> s')"

text \<open>
  \<^verbatim>\<open>processNotification\<close>: the body of the \<^verbatim>\<open>try\<close>; every error thrown inside it, the final
  \<^verbatim>\<open>throw new Error(result.error || 'Failed to send notification')\<close> included, goes through
  \<open>on_error\<close> with the state reached so far.
\<close>

definition processNotification ::
  "world \<Rightarrow> providers \<Rightarrow> Job \<Rightarrow> system \<Rightarrow> (exn + WorkerResult) \<times> system" where
  "processNotification w p job s =
     (case NotificationModel_findById (notificationId job) s of
        Inl e \<Rightarrow> on_error w job e s
      | Inr notification \<Rightarrow>
          if n_status notification = SENT
          then (Inr \<lparr> r_success = True, r_messageId = None \<rparr>, s)
          else
           (case NotificationModel_updateStatus w (notificationId job) PROCESSING None s of
              Inl e \<Rightarrow> on_error w job e s
            | Inr (n1, s1) \<Rightarrow>
               (case TemplateModel_findById (n_template_id notification) s1 of
                  Inl e \<Rightarrow> on_error w job e s1
                | Inr t \<Rightarrow>
                   (case channel_send (n_channel notification) p
                           (getRecipientForUser p (n_user_id notification) (n_channel notification))
                           t (n_data notification) of
                      Inl e \<Rightarrow> on_error w job e s1
                    | Inr result \<Rightarrow>
                       (case NotificationModel_updateStatus w (notificationId job)
                               (if success result then SENT
                                else if attemptsMade job + 1 \<ge> attempts_or_1 (opts_attempts job)
                                then FAILED else RETRYING)
                               None s1 of
                          Inl e \<Rightarrow> on_error w job e s1
                        | Inr (n2, s2) \<Rightarrow>
                           (case DeliveryLogModel_create w (notificationId job) (attemptsMade job + 1)
                                   (if success result then SENT else FAILED)
                                   (error result) (providerResponse result) s2 of
                              Inl e \<Rightarrow> on_error w job e s2
                            | Inr (l, s3) \<Rightarrow>
                                if success result
                                then (Inr \<lparr> r_success = True, r_messageId = messageId result \<rparr>, s3)
                                else on_error w job
                                       (Error (case or_null (error result) of
                                                 Some m \<Rightarrow> m
                                               | None \<Rightarrow> ''Failed to send notification''))
                                       s3))))))"


section \<open>Delivery log statistics\<close>

subsection \<open>Double-precision arithmetic\<close>

text \<open>
  JavaScript numbers are IEEE 754 binary64 values, and every arithmetic operation returns
  the exact result rounded to the nearest such value, ties to the even significand.
  \<open>binary64\<close> is that rounding on the rationals, for magnitudes in the normal range (the
  numbers met below lie between \<open>2 ^ - 64\<close> and \<open>2 ^ 64\<close>): \<open>exponent x\<close> is the \<open>e\<close> with
  \<open>2 ^ e \<le> x < 2 ^ (e + 1)\<close>, and the significand has 53 bits.
\<close>

definition pow2 :: "int \<Rightarrow> rat" where
  "pow2 e = (if 0 \<le> e then 2 ^ nat e else 1 / 2 ^ nat (- e))"

function exponent :: "rat \<Rightarrow> int" where
  "exponent x =
     (if 2 \<le> x then exponent (x / 2) + 1
      else if 0 < x \<and> x < 1 then exponent (x * 2) - 1
      else 0)"
  by pat_completeness auto
termination
proof (relation "measure (\<lambda>x. if 1 \<le> x then nat \<lfloor>x\<rfloor> else nat \<lfloor>1 / x\<rfloor> + 1)")
  show "wf (measure (\<lambda>x::rat. if 1 \<le> x then nat \<lfloor>x\<rfloor> else nat \<lfloor>1 / x\<rfloor> + 1))"
    by simp
next
  fix x :: rat
  assume x: "2 \<le> x"
  have "x / 2 + 1 \<le> x"
    using x by simp
  then have "\<lfloor>x / 2 + 1\<rfloor> \<le> \<lfloor>x\<rfloor>"
    by (rule floor_mono)
  then have "\<lfloor>x / 2\<rfloor> < \<lfloor>x\<rfloor>"
    by simp
  moreover have "0 < \<lfloor>x\<rfloor>"
    using x by simp
  ultimately show "(x / 2, x) \<in> measure (\<lambda>x. if 1 \<le> x then nat \<lfloor>x\<rfloor> else nat \<lfloor>1 / x\<rfloor> + 1)"
    using x by simp
next
  fix x :: rat
  assume "\<not> 2 \<le> x" and x: "0 < x \<and> x < 1"
  show "(x * 2, x) \<in> measure (\<lambda>x. if 1 \<le> x then nat \<lfloor>x\<rfloor> else nat \<lfloor>1 / x\<rfloor> + 1)"
  proof (cases "1 \<le> x * 2")
    case True
    have "x * 2 < 2"
      using x by simp
    then have "\<lfloor>x * 2\<rfloor> < 2"
      by (simp add: floor_less_iff)
    moreover have "1 < 1 / x"
      using x by simp
    then have "1 \<le> \<lfloor>1 / x\<rfloor>"
      by (simp add: le_floor_iff)
    ultimately have "nat \<lfloor>x * 2\<rfloor> < Suc (nat \<lfloor>1 / x\<rfloor>)"
      by arith
    then show ?thesis
      using True x by simp
  next
    case False
    have "1 / (x * 2) = (1 / x) / 2"
      by simp
    moreover have "2 \<le> 1 / x"
      using False x by (simp add: field_simps)
    ultimately have "1 / (x * 2) + 1 \<le> 1 / x"
      by simp
    then have "\<lfloor>1 / (x * 2) + 1\<rfloor> \<le> \<lfloor>1 / x\<rfloor>"
      by (rule floor_mono)
    then have "\<lfloor>1 / (x * 2)\<rfloor> < \<lfloor>1 / x\<rfloor>"
      by simp
    moreover have "0 \<le> \<lfloor>1 / (x * 2)\<rfloor>"
      using x by simp
    ultimately show ?thesis
      using False x by simp
  qed
qed

definition round_half_even :: "rat \<Rightarrow> int" where
  "round_half_even m =
     (if m - of_int \<lfloor>m\<rfloor> < 1 / 2 then \<lfloor>m\<rfloor>
      else if 1 / 2 < m - of_int \<lfloor>m\<rfloor> then \<lfloor>m\<rfloor> + 1
      else if even \<lfloor>m\<rfloor> then \<lfloor>m\<rfloor>
      else \<lfloor>m\<rfloor> + 1)"

definition binary64 :: "rat \<Rightarrow> rat" where
  "binary64 x =
     (if 0 \<le> x
      then of_int (round_half_even (x / pow2 (exponent x - 52))) * pow2 (exponent x - 52)
      else - (of_int (round_half_even (- x / pow2 (exponent (- x) - 52))) * pow2 (exponent (- x) - 52)))"

text \<open>\<^verbatim>\<open>Math.round\<close>: the nearest integer, a tie going up.\<close>

definition Math_round :: "rat \<Rightarrow> int" where
  "Math_round x = \<lfloor>x + 1 / 2\<rfloor>"

subsection \<open>getSuccessRate\<close>

text \<open>
  \<^verbatim>\<open>DeliveryLogModel.getSuccessRate(since?)\<close>: the query counts the rows of \<^verbatim>\<open>delivery_logs\<close>, all
  of them or those with \<^verbatim>\<open>created_at >= since\<close>, and among them the rows with status
  \<^verbatim>\<open>sent\<close>; both counts are cast to \<^verbatim>\<open>FLOAT\<close> and read with \<^verbatim>\<open>parseFloat\<close>. The result is \<^verbatim>\<open>0\<close>
  for no rows and \<^verbatim>\<open>Math.round((sent / total) * 100 * 100) / 100\<close> otherwise.
\<close>

definition window :: "nat option \<Rightarrow> system \<Rightarrow> DeliveryLog list" where
  "window since s =
     (case since of
        None \<Rightarrow> delivery_logs s
      | Some t \<Rightarrow> filter (\<lambda>l. t \<le> l_created_at l) (delivery_logs s))"

definition sent_count :: "nat option \<Rightarrow> system \<Rightarrow> nat" where
  "sent_count since s = length (filter (\<lambda>l. l_status l = SENT) (window since s))"

definition total_count :: "nat option \<Rightarrow> system \<Rightarrow> nat" where
  "total_count since s = length (window since s)"

definition getSuccessRate :: "nat option \<Rightarrow> system \<Rightarrow> rat" where
  "getSuccessRate since s =
     (let sent = binary64 (of_nat (sent_count since s));
          total = binary64 (of_nat (total_count since s))
      in if total = 0 then 0
         else binary64
                (of_int (Math_round (binary64 (binary64 (binary64 (sent / total) * 100) * 100))) / 100))"

section \<open>Example states\<close>

text \<open>
  Two of the templates that the migration script seeds, the request of the specification's
  scenario A, and the states before and after that request is created.
\<close>

definition ex_welcome_email :: "Template" where
  "ex_welcome_email =
     \<lparr> t_id = ''welcome_email'', t_name = ''Welcome Email'', t_channel = EMAIL,
       t_subject = Some ''Welcome to {{app_name}}!'',
       t_body = ''Hello {{name}},'' @ [CHR 0x0A, CHR 0x0A] @
                ''Welcome to our platform! Click here to get started: {{link}}'' @
                [CHR 0x0A, CHR 0x0A] @ ''Best regards,'' @ [CHR 0x0A] @ ''The Team'',
       t_variables = [''name'', ''app_name'', ''link''] \<rparr>"

definition ex_order_shipped :: "Template" where
  "ex_order_shipped =
     \<lparr> t_id = ''order_shipped'', t_name = ''Order Shipped'', t_channel = SMS,
       t_subject = None,
       t_body = ''Hi {{name}}, your order #{{order_id}} has shipped! Track it here: {{tracking_link}}'',
       t_variables = [''name'', ''order_id'', ''tracking_link''] \<rparr>"

definition ex_initial :: "system" where
  "ex_initial =
     \<lparr> notifications = [], templates = [ex_welcome_email, ex_order_shipped],
       delivery_logs = [], redis = Map.empty, queue = [] \<rparr>"

definition ex_world :: "world" where
  "ex_world = \<lparr> gen_uuid = (\<lambda>k. ''6f1c2a9e-0000-4000-8000-'' @ decimal (int k)), clock = 1 \<rparr>"

definition ex_request :: "CreateNotificationDTO" where
  "ex_request =
     \<lparr> user_id = ''u1'', channel = EMAIL, template = ''welcome_email'',
       data = [(''name'', JStr ''John''), (''app_name'', JStr ''X''), (''link'', JStr ''https://x'')] \<rparr>"

text \<open>
  The examples need a concrete hash. \<open>ex_hash\<close> is a stand-in, not SHA-256: the identity,
  which like an ideal digest gives different keys to different strings. No example depends
  on the value of a digest, only on whether two keys are equal.
\<close>

definition ex_hash :: "string \<Rightarrow> string" where
  "ex_hash content = content"

definition ex_key :: "string" where
  "ex_key = generateIdempotencyKey ex_hash (user_id ex_request) (template ex_request) (data ex_request)"

definition ex_notification :: "Notification" where
  "ex_notification =
     \<lparr> n_id = ''6f1c2a9e-0000-4000-8000-0'', n_user_id = ''u1'', n_channel = EMAIL,
       n_template_id = ''welcome_email'',
       n_data = [(''link'', JStr ''https://x''), (''name'', JStr ''John''), (''app_name'', JStr ''X'')],
       n_status = PENDING, n_idempotency_key = ex_key, n_error_message = None,
       n_retry_count = 0, n_created_at = 1, n_updated_at = 1 \<rparr>"

definition ex_job :: "QueuedJob" where
  "ex_job = \<lparr> q_name = ''send-notification'', q_notificationId = ''6f1c2a9e-0000-4000-8000-0'',
              q_attempts = 3, q_backoff_delay = 2000 \<rparr>"

definition ex_created :: "system" where
  "ex_created =
     \<lparr> notifications = [ex_notification], templates = [ex_welcome_email, ex_order_shipped],
       delivery_logs = [],
       redis = [''idempotency:'' @ ex_key \<mapsto> ''6f1c2a9e-0000-4000-8000-0''],
       queue = [ex_job] \<rparr>"

text \<open>
  A second request, from another user, its notification, and a table that holds both
  notifications: once with only the first key in the cache, once with both.
\<close>

definition ex_request_u2 :: "CreateNotificationDTO" where
  "ex_request_u2 = ex_request\<lparr>user_id := ''u2''\<rparr>"

definition ex_key_u2 :: "string" where
  "ex_key_u2 =
     generateIdempotencyKey ex_hash (user_id ex_request_u2) (template ex_request_u2) (data ex_request_u2)"

definition ex_notification_u2 :: "Notification" where
  "ex_notification_u2 =
     ex_notification\<lparr>n_id := ''6f1c2a9e-0000-4000-8000-1'', n_user_id := ''u2'',
                      n_idempotency_key := ex_key_u2, n_status := SENT\<rparr>"

definition ex_two_rows :: "system" where
  "ex_two_rows = ex_created\<lparr>notifications := [ex_notification, ex_notification_u2]\<rparr>"

definition ex_two_rows_cached :: "system" where
  "ex_two_rows_cached =
     ex_two_rows\<lparr>redis := (redis ex_two_rows)(''idempotency:'' @ ex_key_u2 \<mapsto> ''6f1c2a9e-0000-4000-8000-1'')\<rparr>"

text \<open>A hash that collides on all strings, for the example of a collision.\<close>

definition ex_colliding_hash :: "string \<Rightarrow> string" where
  "ex_colliding_hash content = ''0''"



text \<open>
  Providers for the examples: one where SendGrid and Twilio accept every message, one where
  they reject every message; the simulated push provider fails in the second.
\<close>

definition ex_accepting :: "providers" where
  "ex_accepting =
     \<lparr> sendgrid = (\<lambda>recipient subj html. Resolved ''msg-1'' [(''statusCode'', JNum 202)]),
       twilio = (\<lambda>recipient body. Resolved ''SM1'' [(''status'', JStr ''queued'')]),
       random = 1 / 2, push_message_id = ''push_1_abc'', push_multicast_id = 42,
       push_timestamp = ''2024-01-15T10:30:00.000Z'', token = ''k3j9x0q2m1a'' \<rparr>"

definition ex_rejecting :: "providers" where
  "ex_rejecting =
     \<lparr> sendgrid = (\<lambda>recipient subj html. Rejected [(''code'', JNum 503)]),
       twilio = (\<lambda>recipient body. Rejected [(''code'', JNum 21211)]),
       random = 1 / 20, push_message_id = ''push_1_abc'', push_multicast_id = 42,
       push_timestamp = ''2024-01-15T10:30:00.000Z'', token = ''k3j9x0q2m1a'' \<rparr>"

definition ex_first_attempt :: "Job" where
  "ex_first_attempt =
     \<lparr> notificationId = ''6f1c2a9e-0000-4000-8000-0'', attemptsMade = 0, opts_attempts = Some 3 \<rparr>"

text \<open>
  A log table with 950 rows of status \<^verbatim>\<open>sent\<close> and 50 rows of status \<^verbatim>\<open>failed\<close>, and one with
  one row of status \<^verbatim>\<open>sent\<close> and two of status \<^verbatim>\<open>failed\<close>.
\<close>

definition ex_log :: "NotificationStatus \<Rightarrow> DeliveryLog" where
  "ex_log st =
     \<lparr> l_id = ''0b7e1d52-0000-4000-8000-0'', l_notification_id = ''6f1c2a9e-0000-4000-8000-0'',
       l_attempt = 1, l_status = st, l_error_message = None, l_provider_response = None,
       l_created_at = 5 \<rparr>"

definition ex_logs_950_50 :: "system" where
  "ex_logs_950_50 =
     ex_created\<lparr>delivery_logs := replicate 950 (ex_log SENT) @ replicate 50 (ex_log FAILED)\<rparr>"

definition ex_logs_1_2 :: "system" where
  "ex_logs_1_2 = ex_created\<lparr>delivery_logs := [ex_log SENT, ex_log FAILED, ex_log FAILED]\<rparr>"

section \<open>Evaluation of the examples\<close>

lemmas ex_defs = ex_initial_def ex_world_def ex_request_def ex_notification_def ex_job_def
  ex_created_def ex_welcome_email_def ex_order_shipped_def ex_key_def

lemmas service_defs = createNotification_def checkIdempotency_def
  NotificationModel_findByIdempotencyKey_def NotificationModel_create_def
  NotificationModel_findById_def TemplateModel_findById_def
  TemplateModel_validateVariables_def get_property_def jsonb_object_def jsonb_key_le_def
  storeIdempotencyKey_def notificationQueue_add_def decimal_def digit_char_def Let_def

lemma ex_created_eq:
  "createNotification ex_hash (\<lambda>s. s) ex_world ex_request ex_initial = (Inr ex_notification, ex_created)"
  by (simp add: service_defs ex_defs)

section \<open>Deduplication\<close>

text \<open>
  The uniqueness constraint and the primary key make a lookup by key or by id return the
  one row that carries it.
\<close>

lemma find_unique:
  "distinct (map f xs) \<Longrightarrow> x \<in> set xs \<Longrightarrow> find (\<lambda>y. f y = f x) xs = Some x"
proof (induction xs)
  case Nil
  then show ?case by simp
next
  case (Cons a xs)
  show ?case
  proof (cases "f a = f x")
    case True
    with Cons.prems have "x = a"
      by (auto simp: image_iff)
    with True show ?thesis by simp
  next
    case False
    with Cons show ?thesis by auto
  qed
qed

lemma findByIdempotencyKey_persisted:
  assumes "distinct (map n_idempotency_key (notifications s))" and "n \<in> set (notifications s)"
  shows "NotificationModel_findByIdempotencyKey (n_idempotency_key n) s = Some n"
  unfolding NotificationModel_findByIdempotencyKey_def using assms by (rule find_unique)

lemma findById_persisted:
  assumes "distinct (map n_id (notifications s))" and "n \<in> set (notifications s)"
  shows "NotificationModel_findById (n_id n) s = Inr n"
  unfolding NotificationModel_findById_def using find_unique [OF assms] by simp

text \<open>The insert keeps the keys of the table distinct: it refuses a key that a row carries.\<close>

lemma NotificationModel_create_keeps_keys_distinct:
  assumes "distinct (map n_idempotency_key (notifications s))"
    and "NotificationModel_create w dto key s = Inr (n, s')"
  shows "distinct (map n_idempotency_key (notifications s'))"
  using assms
  by (auto simp: NotificationModel_create_def Let_def list_ex_iff split: if_splits)

text \<open>
  C1. The table of notifications satisfies its uniqueness constraint and its primary key,
  and one of its rows, \<open>n\<close>, carries the idempotency key that a create request derives. The
  cache either has no id for that key, so that the row is found in the store, or it holds
  the id of \<open>n\<close>. Then \<^verbatim>\<open>createNotification\<close> returns \<open>n\<close>, and with it the id and the status
  of the existing notification; the table of notifications and the queue are left as they
  were, so no row is inserted and no job is enqueued. This holds for every hash and whatever
  concurrent callers do in the window before the insert, which such a request never reaches.
\<close>

theorem createNotification_duplicate:
  assumes "key = generateIdempotencyKey H (user_id dto) (template dto) (data dto)"
    and "n \<in> set (notifications s)"
    and "n_idempotency_key n = key"
    and "distinct (map n_idempotency_key (notifications s))"
    and "distinct (map n_id (notifications s))"
    and "or_null (checkIdempotency key s) = None \<or>
         or_null (checkIdempotency key s) = Some (n_id n)"
  shows "fst (createNotification H other w dto s) = Inr n \<and>
         notifications (snd (createNotification H other w dto s)) = notifications s \<and>
         queue (snd (createNotification H other w dto s)) = queue s"
proof -
  have store: "NotificationModel_findByIdempotencyKey key s = Some n"
    using findByIdempotencyKey_persisted [OF assms(4) assms(2)] assms(3) by simp
  have row: "NotificationModel_findById (n_id n) s = Inr n"
    using assms(5) assms(2) by (rule findById_persisted)
  from assms(6) show ?thesis
  proof
    assume "or_null (checkIdempotency key s) = None"
    with store assms(1) show ?thesis
      by (simp add: createNotification_def Let_def storeIdempotencyKey_def)
  next
    assume "or_null (checkIdempotency key s) = Some (n_id n)"
    with row assms(1) show ?thesis
      by (simp add: createNotification_def Let_def)
  qed
qed

lemma ex_keys_differ: "ex_key \<noteq> ex_key_u2"
  by (simp add: ex_key_def ex_key_u2_def ex_request_u2_def ex_request_def
      generateIdempotencyKey_def ex_hash_def key_content_def)

theorem createNotification_duplicate_witness:
  "fst (createNotification ex_hash (\<lambda>s. s) ex_world ex_request_u2 ex_two_rows) = Inr ex_notification_u2 \<and>
   notifications (snd (createNotification ex_hash (\<lambda>s. s) ex_world ex_request_u2 ex_two_rows))
     = [ex_notification, ex_notification_u2] \<and>
   queue (snd (createNotification ex_hash (\<lambda>s. s) ex_world ex_request_u2 ex_two_rows)) = [ex_job] \<and>
   fst (createNotification ex_hash (\<lambda>s. s) ex_world ex_request_u2 ex_two_rows_cached) = Inr ex_notification_u2 \<and>
   notifications (snd (createNotification ex_hash (\<lambda>s. s) ex_world ex_request_u2 ex_two_rows_cached))
     = [ex_notification, ex_notification_u2] \<and>
   queue (snd (createNotification ex_hash (\<lambda>s. s) ex_world ex_request_u2 ex_two_rows_cached)) = [ex_job]"
proof -
  have k: "ex_key_u2 = generateIdempotencyKey ex_hash (user_id ex_request_u2) (template ex_request_u2)
             (data ex_request_u2)"
    by (simp add: ex_key_u2_def)
  have carries: "n_idempotency_key ex_notification_u2 = ex_key_u2"
    by (simp add: ex_notification_u2_def)
  have rows: "notifications ex_two_rows = [ex_notification, ex_notification_u2]"
    "notifications ex_two_rows_cached = [ex_notification, ex_notification_u2]"
    "queue ex_two_rows = [ex_job]" "queue ex_two_rows_cached = [ex_job]"
    by (simp_all add: ex_two_rows_def ex_two_rows_cached_def ex_created_def)
  have persisted: "ex_notification_u2 \<in> set (notifications ex_two_rows)"
    "ex_notification_u2 \<in> set (notifications ex_two_rows_cached)"
    by (simp_all add: rows)
  have keys: "distinct (map n_idempotency_key (notifications ex_two_rows))"
    "distinct (map n_idempotency_key (notifications ex_two_rows_cached))"
    using ex_keys_differ by (simp_all add: rows ex_notification_u2_def ex_notification_def)
  have ids: "distinct (map n_id (notifications ex_two_rows))"
    "distinct (map n_id (notifications ex_two_rows_cached))"
    by (simp_all add: rows ex_notification_u2_def ex_notification_def)
  have "or_null (checkIdempotency ex_key_u2 ex_two_rows) = None"
    using ex_keys_differ by (simp add: checkIdempotency_def ex_two_rows_def ex_created_def)
  then have miss: "or_null (checkIdempotency ex_key_u2 ex_two_rows) = None \<or>
      or_null (checkIdempotency ex_key_u2 ex_two_rows) = Some (n_id ex_notification_u2)"
    by simp
  have "or_null (checkIdempotency ex_key_u2 ex_two_rows_cached) = Some (n_id ex_notification_u2)"
    by (simp add: checkIdempotency_def ex_two_rows_cached_def ex_notification_u2_def)
  then have hit: "or_null (checkIdempotency ex_key_u2 ex_two_rows_cached) = None \<or>
      or_null (checkIdempotency ex_key_u2 ex_two_rows_cached) = Some (n_id ex_notification_u2)"
    by simp
  from createNotification_duplicate [OF k persisted(1) carries keys(1) ids(1) miss, of "\<lambda>s. s" ex_world]
    createNotification_duplicate [OF k persisted(2) carries keys(2) ids(2) hit, of "\<lambda>s. s" ex_world]
  show ?thesis
    by (simp add: rows)
qed

section \<open>Channel mismatch\<close>

text \<open>
  C10, as stated, fails: the duplicate check comes first, and the idempotency key does not
  contain the channel. After the request of scenario A is created, the same request with
  channel \<^verbatim>\<open>sms\<close> names an existing template of another channel, yet it is answered with
  the stored notification.
\<close>

theorem channel_mismatch_duplicate_counterexample:
  "TemplateModel_findById (template (ex_request\<lparr>channel := SMS\<rparr>)) ex_created = Inr ex_welcome_email \<and>
   t_channel ex_welcome_email \<noteq> channel (ex_request\<lparr>channel := SMS\<rparr>) \<and>
   fst (createNotification ex_hash (\<lambda>s. s) ex_world (ex_request\<lparr>channel := SMS\<rparr>) ex_created) = Inr ex_notification"
  by (simp add: service_defs ex_defs)

text \<open>
  C10, amended. A create request that is not a duplicate (the cache has no id for its key
  and the store has no row with it), whose template exists with a channel other than the
  requested one, throws the \<^verbatim>\<open>BadRequestError\<close> of step 5 and leaves the whole state as it
  was: nothing is persisted, enqueued or cached.
\<close>

theorem createNotification_channel_mismatch:
  assumes "key = generateIdempotencyKey H (user_id dto) (template dto) (data dto)"
    and "or_null (checkIdempotency key s) = None"
    and "NotificationModel_findByIdempotencyKey key s = None"
    and "TemplateModel_findById (template dto) s = Inr t"
    and "t_channel t \<noteq> channel dto"
  shows "createNotification H other w dto s =
           (Inl (BadRequestError (''Template '' @ [CHR 0x27] @ template dto @ [CHR 0x27] @ '' is for '' @
                   channel_name (t_channel t) @ '', not '' @ channel_name (channel dto))), s)"
  using assms
  by (simp add: createNotification_def Let_def)

theorem createNotification_channel_mismatch_witness:
  "createNotification ex_hash (\<lambda>s. s) ex_world (ex_request\<lparr>channel := SMS\<rparr>) ex_initial =
     (Inl (BadRequestError ''Template 'welcome_email' is for email, not sms''), ex_initial)"
proof -
  let ?dto = "ex_request\<lparr>channel := SMS\<rparr>"
  have k: "ex_key = generateIdempotencyKey ex_hash (user_id ?dto) (template ?dto) (data ?dto)"
    by (simp add: ex_key_def)
  have miss: "or_null (checkIdempotency ex_key ex_initial) = None"
    by (simp add: checkIdempotency_def ex_initial_def)
  have fresh: "NotificationModel_findByIdempotencyKey ex_key ex_initial = None"
    by (simp add: NotificationModel_findByIdempotencyKey_def ex_initial_def)
  have tmpl: "TemplateModel_findById (template ?dto) ex_initial = Inr ex_welcome_email"
    by (simp add: TemplateModel_findById_def ex_initial_def ex_request_def ex_welcome_email_def)
  have ch: "t_channel ex_welcome_email \<noteq> channel ?dto"
    by (simp add: ex_welcome_email_def)
  from createNotification_channel_mismatch [OF k miss fresh tmpl ch, of "\<lambda>s. s" ex_world]
  show ?thesis
    by (simp add: ex_request_def ex_welcome_email_def)
qed

section \<open>The race on one key\<close>

text \<open>
  C5, as stated, fails. Two callers submit the request of scenario A; the second passes
  the duplicate check on the empty store, then the first caller's whole
  \<^verbatim>\<open>createNotification\<close> commits, and the second caller's insert is rejected by the
  uniqueness constraint. The second caller gets the constraint violation, not the winning
  notification, although the store then holds it under the key.
\<close>

theorem lost_race_counterexample:
  "fst (createNotification ex_hash (\<lambda>s. snd (createNotification ex_hash (\<lambda>s. s) ex_world ex_request s))
          ex_world ex_request ex_initial)
     = Inl (UniqueViolation ''notifications_idempotency_key_key'') \<and>
   NotificationModel_findByIdempotencyKey ex_key
     (snd (createNotification ex_hash (\<lambda>s. snd (createNotification ex_hash (\<lambda>s. s) ex_world ex_request s))
             ex_world ex_request ex_initial))
     = Some ex_notification"
  by (simp add: service_defs ex_defs)

text \<open>
  C5, amended. When the insert of step 7 is rejected by the uniqueness constraint on
  \<^verbatim>\<open>idempotency_key\<close>, because a concurrent caller has committed a row with the key after this
  caller's duplicate check, \<^verbatim>\<open>createNotification\<close> throws the constraint violation to its
  caller. It does not query the store again, and it adds no row, no job and no cache entry:
  the state is the one that the concurrent caller left.
\<close>

theorem createNotification_lost_race:
  assumes "key = generateIdempotencyKey H (user_id dto) (template dto) (data dto)"
    and "or_null (checkIdempotency key s) = None"
    and "NotificationModel_findByIdempotencyKey key s = None"
    and "TemplateModel_findById (template dto) s = Inr t"
    and "t_channel t = channel dto"
    and "fst (TemplateModel_validateVariables t (data dto))"
    and "NotificationModel_create w dto key (other s) = Inl (UniqueViolation c)"
  shows "createNotification H other w dto s = (Inl (UniqueViolation c), other s)"
  using assms
  by (simp add: createNotification_def Let_def)

theorem createNotification_lost_race_witness:
  "createNotification ex_hash (\<lambda>s. ex_created) ex_world ex_request ex_initial =
     (Inl (UniqueViolation ''notifications_idempotency_key_key''), ex_created)"
proof -
  have k: "ex_key = generateIdempotencyKey ex_hash (user_id ex_request) (template ex_request) (data ex_request)"
    by (simp add: ex_key_def)
  have miss: "or_null (checkIdempotency ex_key ex_initial) = None"
    by (simp add: checkIdempotency_def ex_initial_def)
  have fresh: "NotificationModel_findByIdempotencyKey ex_key ex_initial = None"
    by (simp add: NotificationModel_findByIdempotencyKey_def ex_initial_def)
  have tmpl: "TemplateModel_findById (template ex_request) ex_initial = Inr ex_welcome_email"
    by (simp add: TemplateModel_findById_def ex_initial_def ex_request_def ex_welcome_email_def)
  have ch: "t_channel ex_welcome_email = channel ex_request"
    by (simp add: ex_welcome_email_def ex_request_def)
  have vars: "fst (TemplateModel_validateVariables ex_welcome_email (data ex_request))"
    by (simp add: TemplateModel_validateVariables_def get_property_def ex_welcome_email_def
        ex_request_def)
  have rej: "NotificationModel_create ex_world ex_request ex_key ((\<lambda>s. ex_created) ex_initial)
               = Inl (UniqueViolation ''notifications_idempotency_key_key'')"
    by (simp add: NotificationModel_create_def ex_created_def ex_notification_def)
  from createNotification_lost_race [OF k miss fresh tmpl ch vars rej]
  show ?thesis
    by simp
qed

section \<open>Status after creation\<close>

text \<open>
  C3. The request of scenario A on the seeded database is accepted and is not a duplicate.
  \<^verbatim>\<open>createNotification\<close> inserts the row with status \<^verbatim>\<open>pending\<close>, enqueues the job, caches the
  key and returns: the returned notification and the stored row both have status
  \<^verbatim>\<open>pending\<close>. No call of \<^verbatim>\<open>updateStatus\<close> with \<^verbatim>\<open>queued\<close> is made, here or anywhere in the
  source, although the job was enqueued.
\<close>

theorem createNotification_stays_pending:
  "fst (createNotification ex_hash (\<lambda>s. s) ex_world ex_request ex_initial) = Inr ex_notification \<and>
   n_status ex_notification = PENDING \<and>
   map n_status (notifications (snd (createNotification ex_hash (\<lambda>s. s) ex_world ex_request ex_initial))) = [PENDING] \<and>
   queue (snd (createNotification ex_hash (\<lambda>s. s) ex_world ex_request ex_initial)) = [ex_job]"
  by (simp add: service_defs ex_defs)

section \<open>The worker\<close>

lemmas render_defs = match_placeholder_def is_word_char_def substitute_def get_property_def
  toString_def Object_prototype_def native_function_def

lemmas worker_defs = processNotification_def on_error_def NotificationModel_findById_def
  NotificationModel_updateStatus_def TemplateModel_findById_def DeliveryLogModel_create_def
  EmailChannel_send_def SMSChannel_send_def PushChannel_send_def push_failure_def
  caught_error_def jsonb_object_def jsonb_key_le_def render_defs
  decimal_def digit_char_def Let_def

lemmas worker_ex_defs = ex_created_def ex_notification_def ex_welcome_email_def
  ex_order_shipped_def ex_job_def ex_world_def ex_first_attempt_def ex_accepting_def
  ex_rejecting_def

subsection \<open>What an attempt leaves untouched\<close>

lemma updateStatus_retry_count:
  "NotificationModel_updateStatus w i st m s = Inr (n, s') \<Longrightarrow>
   map n_retry_count (notifications s') = map n_retry_count (notifications s)"
  by (auto simp: NotificationModel_updateStatus_def comp_def split: option.splits)

lemma DeliveryLogModel_create_notifications:
  "DeliveryLogModel_create w i a st m r s = Inr (l, s') \<Longrightarrow> notifications s' = notifications s"
  by (auto simp: DeliveryLogModel_create_def Let_def split: if_splits)

lemma on_error_notifications:
  "notifications (snd (on_error w job e s)) = notifications s"
  by (auto simp: on_error_def split: sum.splits dest: DeliveryLogModel_create_notifications)

lemma processNotification_retry_count:
  "map n_retry_count (notifications (snd (processNotification w p job s)))
     = map n_retry_count (notifications s)"
  by (auto simp: processNotification_def on_error_notifications
           split: sum.splits
           dest!: updateStatus_retry_count DeliveryLogModel_create_notifications)

subsection \<open>Delivery logs per attempt\<close>

text \<open>
  C2. The notification of scenario A is stored with status \<^verbatim>\<open>pending\<close>, and the job is at its
  first attempt of three. When the provider accepts the message the attempt appends one
  delivery log, and when the template has been deleted, so that the attempt fails before it
  reaches the provider, it appends one as well. When the provider rejects the message the
  attempt appends two: the one after the send, and a second one from the \<^verbatim>\<open>catch\<close> block,
  which the \<^verbatim>\<open>throw\<close> at the end of the \<^verbatim>\<open>try\<close> block enters. Both carry attempt number 1 and
  status \<^verbatim>\<open>failed\<close>.
\<close>

theorem processNotification_logs_provider_failure_twice:
  "length (delivery_logs (snd (processNotification ex_world ex_accepting ex_first_attempt ex_created))) = 1 \<and>
   length (delivery_logs (snd (processNotification ex_world ex_accepting ex_first_attempt
                                 (ex_created\<lparr>templates := []\<rparr>)))) = 1 \<and>
   fst (processNotification ex_world ex_rejecting ex_first_attempt ex_created)
     = Inl (Error ''Failed to send notification'') \<and>
   map (\<lambda>l. (l_notification_id l, l_attempt l, l_status l))
       (delivery_logs (snd (processNotification ex_world ex_rejecting ex_first_attempt ex_created)))
     = [(''6f1c2a9e-0000-4000-8000-0'', 1, FAILED), (''6f1c2a9e-0000-4000-8000-0'', 1, FAILED)]"
  by (simp add: worker_defs worker_ex_defs)

subsection \<open>The retry count\<close>

text \<open>
  C4. The same notification has \<^verbatim>\<open>retry_count = 0\<close>. After a worker attempt on it, failed or
  successful, the count is still 0: \<^verbatim>\<open>processNotification\<close> calls neither
  \<^verbatim>\<open>incrementRetryCount\<close>. The service's \<^verbatim>\<open>incrementRetryCount\<close>, documented as called by the
  worker before each retry, leaves the count at 0 too, because the update object that holds
  \<^verbatim>\<open>retry_count + 1\<close> is never written; only the model's \<^verbatim>\<open>incrementRetryCount\<close>, which nothing
  calls, makes it 1.
\<close>

theorem retry_count_not_incremented:
  "map n_retry_count (notifications ex_created) = [0] \<and>
   map n_retry_count
     (notifications (snd (processNotification ex_world ex_rejecting ex_first_attempt ex_created))) = [0] \<and>
   map n_retry_count
     (notifications (snd (processNotification ex_world ex_accepting ex_first_attempt ex_created))) = [0] \<and>
   map n_retry_count
     (notifications (snd (NotificationService_incrementRetryCount ex_world
                            ''6f1c2a9e-0000-4000-8000-0'' ex_created))) = [0] \<and>
   map_sum id (map n_retry_count \<circ> notifications \<circ> snd)
     (NotificationModel_incrementRetryCount ex_world ''6f1c2a9e-0000-4000-8000-0'' ex_created)
     = Inr [1]"
  by (simp add: worker_defs worker_ex_defs NotificationService_incrementRetryCount_def
      NotificationModel_incrementRetryCount_def)

section \<open>Channels\<close>







section \<open>The key derivation\<close>

lemmas json_eval = key_content_def quote_def escape_char_def decimal_def digit_char_def

lemma key_content_split:
  assumes "CHR '':'' \<notin> set u" and "CHR '':'' \<notin> set u'"
    and "u @ CHR '':'' # r = u' @ CHR '':'' # r'"
  shows "u = u' \<and> r = r'"
  using assms
proof (induction u arbitrary: u')
  case Nil
  then show ?case by (cases u') auto
next
  case (Cons x xs)
  then show ?case by (cases u') auto
qed

lemma key_content_inj:
  assumes "CHR '':'' \<notin> set u" and "CHR '':'' \<notin> set u'"
    and "CHR '':'' \<notin> set t" and "CHR '':'' \<notin> set t'"
    and "key_content u t d = key_content u' t' d'"
  shows "u = u' \<and> t = t' \<and> JSON_stringify (JObj d) = JSON_stringify (JObj d')"
proof -
  from assms(5)
  have "u @ CHR '':'' # (t @ CHR '':'' # JSON_stringify (JObj d))
      = u' @ CHR '':'' # (t' @ CHR '':'' # JSON_stringify (JObj d'))"
    by (simp add: key_content_def)
  from key_content_split [OF assms(1,2) this]
  have u: "u = u'"
    and rest: "t @ CHR '':'' # JSON_stringify (JObj d) = t' @ CHR '':'' # JSON_stringify (JObj d')"
    by simp_all
  from key_content_split [OF assms(3,4) rest] u show ?thesis
    by simp
qed

text \<open>Whatever the hash is, the two requests of the second example get one key.\<close>

lemma colon_requests_same_key:
  "generateIdempotencyKey H ''a:b'' ''c'' [] = generateIdempotencyKey H ''a'' ''b:c'' []"
  by (simp add: generateIdempotencyKey_def key_content_def)

text \<open>
  C7, as stated, fails on both counts. The payloads \<^verbatim>\<open>{a: 1, b: 2}\<close> and \<^verbatim>\<open>{b: 2, a: 1}\<close> are
  equal as maps from keys to values, but \<^verbatim>\<open>JSON.stringify\<close> writes the properties in their
  order of insertion, so the two requests hash different strings; their keys are then
  different unless the hash collides on these two strings (shown here for the stand-in hash
  of the examples, which never collides). And the requests with user id \<^verbatim>\<open>a:b\<close>, template
  \<^verbatim>\<open>c\<close> and with user id \<^verbatim>\<open>a\<close>, template \<^verbatim>\<open>b:c\<close> are distinct, but both hash the string
  \<^verbatim>\<open>a:b:c:{}\<close> and get the same key, under every hash and without any collision.
\<close>

theorem generateIdempotencyKey_counterexample:
  "map_of [(''a'', JNum 1), (''b'', JNum 2)] = map_of [(''b'', JNum 2), (''a'', JNum 1)] \<and>
   key_content ''u1'' ''t'' [(''a'', JNum 1), (''b'', JNum 2)]
     \<noteq> key_content ''u1'' ''t'' [(''b'', JNum 2), (''a'', JNum 1)] \<and>
   generateIdempotencyKey ex_hash ''u1'' ''t'' [(''a'', JNum 1), (''b'', JNum 2)]
     \<noteq> generateIdempotencyKey ex_hash ''u1'' ''t'' [(''b'', JNum 2), (''a'', JNum 1)] \<and>
   (''a:b'', ''c'') \<noteq> (''a'', ''b:c'') \<and>
   key_content ''a:b'' ''c'' [] = key_content ''a'' ''b:c'' [] \<and>
   generateIdempotencyKey ex_hash ''a:b'' ''c'' [] = generateIdempotencyKey ex_hash ''a'' ''b:c'' []"
proof -
  have m: "map_of [(''a'', JNum 1), (''b'', JNum 2)] = map_of [(''b'', JNum 2), (''a'', JNum 1)]"
    by (rule ext) simp
  have c: "key_content ''u1'' ''t'' [(''a'', JNum 1), (''b'', JNum 2)]
     \<noteq> key_content ''u1'' ''t'' [(''b'', JNum 2), (''a'', JNum 1)]"
    by (simp add: json_eval)
  have e: "key_content ''a:b'' ''c'' [] = key_content ''a'' ''b:c'' []"
    by (simp add: key_content_def)
  from m c e colon_requests_same_key [of ex_hash] show ?thesis
    by (simp add: generateIdempotencyKey_def ex_hash_def)
qed

text \<open>
  C7, amended. \<^verbatim>\<open>generateIdempotencyKey\<close> is a function of the string
  \<^verbatim>\<open>user_id:template:JSON.stringify(data)\<close>: every two calls for which this string is the
  same return the same key, and so do, in particular, every two calls with equal user id,
  equal template and payloads that serialise to the same JSON text (the same properties
  with the same values in the same order). For user ids and templates without a colon the
  converse holds up to hash collision: if two such calls return the same key, then either
  user id, template and serialised payload are equal, or the two hashed strings differ and
  collide under the hash. This holds for every hash \<open>H\<close>, SHA-256 among them.
\<close>

theorem generateIdempotencyKey_function_of_content:
  "(key_content u t d = key_content u' t' d'
      \<longrightarrow> generateIdempotencyKey H u t d = generateIdempotencyKey H u' t' d') \<and>
   (u = u' \<and> t = t' \<and> JSON_stringify (JObj d) = JSON_stringify (JObj d')
      \<longrightarrow> generateIdempotencyKey H u t d = generateIdempotencyKey H u' t' d') \<and>
   (CHR '':'' \<notin> set u \<and> CHR '':'' \<notin> set u' \<and> CHR '':'' \<notin> set t \<and> CHR '':'' \<notin> set t' \<and>
    generateIdempotencyKey H u t d = generateIdempotencyKey H u' t' d'
      \<longrightarrow> (u = u' \<and> t = t' \<and> JSON_stringify (JObj d) = JSON_stringify (JObj d')) \<or>
          (key_content u t d \<noteq> key_content u' t' d' \<and>
           H (key_content u t d) = H (key_content u' t' d')))"
proof (intro conjI impI)
  assume "key_content u t d = key_content u' t' d'"
  then show "generateIdempotencyKey H u t d = generateIdempotencyKey H u' t' d'"
    by (simp add: generateIdempotencyKey_def)
next
  assume "u = u' \<and> t = t' \<and> JSON_stringify (JObj d) = JSON_stringify (JObj d')"
  then show "generateIdempotencyKey H u t d = generateIdempotencyKey H u' t' d'"
    by (simp add: generateIdempotencyKey_def key_content_def)
next
  assume a: "CHR '':'' \<notin> set u \<and> CHR '':'' \<notin> set u' \<and> CHR '':'' \<notin> set t \<and> CHR '':'' \<notin> set t' \<and>
    generateIdempotencyKey H u t d = generateIdempotencyKey H u' t' d'"
  show "(u = u' \<and> t = t' \<and> JSON_stringify (JObj d) = JSON_stringify (JObj d')) \<or>
        (key_content u t d \<noteq> key_content u' t' d' \<and>
         H (key_content u t d) = H (key_content u' t' d'))"
  proof (cases "key_content u t d = key_content u' t' d'")
    case True
    from a have "CHR '':'' \<notin> set u" "CHR '':'' \<notin> set u'" "CHR '':'' \<notin> set t" "CHR '':'' \<notin> set t'"
      by simp_all
    from key_content_inj [OF this True] show ?thesis
      by simp
  next
    case False
    with a show ?thesis
      by (simp add: generateIdempotencyKey_def)
  qed
qed

text \<open>
  The theorem at three pairs of requests. The requests with user id \<^verbatim>\<open>a:b\<close>, template \<^verbatim>\<open>c\<close>
  and with user id \<^verbatim>\<open>a\<close>, template \<^verbatim>\<open>b:c\<close> differ and hash one string, so they get one key;
  so does the welcome request, sent twice. The requests of the users \<^verbatim>\<open>u1\<close> and \<^verbatim>\<open>u2\<close> for
  one template and payload get different keys under the hash of the examples, which does
  not collide; under the hash that collides everywhere they get the same key, and the
  theorem finds the collision.
\<close>

theorem generateIdempotencyKey_function_of_content_witness:
  "(''a:b'', ''c'') \<noteq> (''a'', ''b:c'') \<and>
   key_content ''a:b'' ''c'' [] = key_content ''a'' ''b:c'' [] \<and>
   generateIdempotencyKey ex_hash ''a:b'' ''c'' [] = generateIdempotencyKey ex_hash ''a'' ''b:c'' [] \<and>
   generateIdempotencyKey ex_hash (user_id ex_request) (template ex_request) (data ex_request)
     = generateIdempotencyKey ex_hash ''u1'' ''welcome_email'' (data ex_request) \<and>
   CHR '':'' \<notin> set ''u1'' \<and> CHR '':'' \<notin> set ''u2'' \<and> CHR '':'' \<notin> set ''welcome_email'' \<and>
   generateIdempotencyKey ex_hash ''u1'' ''welcome_email'' (data ex_request)
     \<noteq> generateIdempotencyKey ex_hash ''u2'' ''welcome_email'' (data ex_request) \<and>
   generateIdempotencyKey ex_colliding_hash ''u1'' ''welcome_email'' (data ex_request)
     = generateIdempotencyKey ex_colliding_hash ''u2'' ''welcome_email'' (data ex_request) \<and>
   key_content ''u1'' ''welcome_email'' (data ex_request)
     \<noteq> key_content ''u2'' ''welcome_email'' (data ex_request) \<and>
   ex_colliding_hash (key_content ''u1'' ''welcome_email'' (data ex_request))
     = ex_colliding_hash (key_content ''u2'' ''welcome_email'' (data ex_request))"
proof -
  have c: "CHR '':'' \<notin> set ''u1'' \<and> CHR '':'' \<notin> set ''u2'' \<and> CHR '':'' \<notin> set ''welcome_email'' \<and>
      CHR '':'' \<notin> set ''welcome_email''"
    by simp
  have e: "key_content ''a:b'' ''c'' [] = key_content ''a'' ''b:c'' []"
    by (simp add: key_content_def)
  from generateIdempotencyKey_function_of_content [of "''a:b''" "''c''" "[]" "''a''" "''b:c''" "[]" ex_hash] e
  have colon: "generateIdempotencyKey ex_hash ''a:b'' ''c'' []
      = generateIdempotencyKey ex_hash ''a'' ''b:c'' []"
    by blast
  have r: "user_id ex_request = ''u1'' \<and> template ex_request = ''welcome_email''"
    by (simp add: ex_request_def)
  from generateIdempotencyKey_function_of_content
    [of "user_id ex_request" "template ex_request" "data ex_request"
        "''u1''" "''welcome_email''" "data ex_request" ex_hash] r
  have same: "generateIdempotencyKey ex_hash (user_id ex_request) (template ex_request) (data ex_request)
     = generateIdempotencyKey ex_hash ''u1'' ''welcome_email'' (data ex_request)"
    by blast
  have inj: "\<And>x y. ex_hash x = ex_hash y \<longleftrightarrow> x = y"
    by (simp add: ex_hash_def)
  have u: "''u1'' \<noteq> ''u2''"
    by simp
  from generateIdempotencyKey_function_of_content
      [of "''u1''" "''welcome_email''" "data ex_request" "''u2''" "''welcome_email''" "data ex_request" ex_hash]
      c inj u
  have differ: "generateIdempotencyKey ex_hash ''u1'' ''welcome_email'' (data ex_request)
     \<noteq> generateIdempotencyKey ex_hash ''u2'' ''welcome_email'' (data ex_request)"
    by blast
  have collide: "generateIdempotencyKey ex_colliding_hash ''u1'' ''welcome_email'' (data ex_request)
     = generateIdempotencyKey ex_colliding_hash ''u2'' ''welcome_email'' (data ex_request)"
    by (simp add: generateIdempotencyKey_def ex_colliding_hash_def)
  from generateIdempotencyKey_function_of_content
      [of "''u1''" "''welcome_email''" "data ex_request" "''u2''" "''welcome_email''" "data ex_request"
        ex_colliding_hash] c collide u
  have found: "key_content ''u1'' ''welcome_email'' (data ex_request)
       \<noteq> key_content ''u2'' ''welcome_email'' (data ex_request) \<and>
     ex_colliding_hash (key_content ''u1'' ''welcome_email'' (data ex_request))
       = ex_colliding_hash (key_content ''u2'' ''welcome_email'' (data ex_request))"
    by blast
  have p: "(''a:b'', ''c'') \<noteq> (''a'', ''b:c'')"
    by simp
  from p e colon same c differ collide found show ?thesis
    by blast
qed

section \<open>Rendering\<close>

text \<open>
  C9. The template \<^verbatim>\<open>Hi {{name}}!\<close> is rendered with the payload \<^verbatim>\<open>{name: ""}\<close>. The
  variable has a value in the payload, the empty string, and \<^verbatim>\<open>validateVariables\<close> counts it
  as present; but the callback's \<^verbatim>\<open>value || match\<close> takes the empty string for a missing
  value, and the placeholder is left in place instead of being replaced by the value. With
  \<^verbatim>\<open>{name: "John"}\<close> the placeholder is replaced, and with \<^verbatim>\<open>{}\<close> it is left in place.
\<close>

theorem renderTemplate_empty_value:
  "renderTemplate ''Hi {{name}}!'' [(''name'', JStr '''')] = Inr ''Hi {{name}}!'' \<and>
   TemplateModel_validateVariables (ex_order_shipped\<lparr>t_variables := [''name'']\<rparr>) [(''name'', JStr '''')]
     = (True, []) \<and>
   renderTemplate ''Hi {{name}}!'' [(''name'', JStr ''John'')] = Inr ''Hi John!'' \<and>
   renderTemplate ''Hi {{name}}!'' [] = Inr ''Hi {{name}}!''"
  by (simp add: render_defs TemplateModel_validateVariables_def)

section \<open>Success rate\<close>

subsection \<open>Evaluation\<close>

lemma floor_rat_numeral: "\<lfloor>numeral a / numeral b :: rat\<rfloor> = numeral a div numeral b"
  by (metis floor_divide_of_int_eq of_int_numeral)

lemmas binary64_eval = binary64_def round_half_even_def pow2_def floor_rat_numeral

lemmas count_defs = sent_count_def total_count_def window_def

lemma rate_950_50: "getSuccessRate None ex_logs_950_50 = 95"
proof -
  have c: "sent_count None ex_logs_950_50 = 950" "total_count None ex_logs_950_50 = 1000"
    by (simp_all add: count_defs ex_logs_950_50_def ex_log_def)
  have b: "binary64 (of_nat 950) = 950" "binary64 (of_nat 1000) = 1000"
    by (simp_all add: binary64_eval)
  have q1: "binary64 (950 / 1000) = 4278419646001971 / 4503599627370496"
    by (simp add: binary64_eval)
  have q2: "binary64 (4278419646001971 / 4503599627370496 * 100) = 95"
    by (simp add: binary64_eval)
  have q3: "binary64 (95 * 100) = 9500"
    by (simp add: binary64_eval)
  have m: "Math_round 9500 = 9500"
    by (simp add: Math_round_def floor_rat_numeral)
  have r: "binary64 (of_int 9500 / 100) = 95"
    by (simp add: binary64_eval)
  show ?thesis
    unfolding getSuccessRate_def Let_def c b q1 q2 q3 m r by simp
qed

lemma rate_1_2: "getSuccessRate None ex_logs_1_2 = 2345390243441541 / 70368744177664"
proof -
  have c: "sent_count None ex_logs_1_2 = 1" "total_count None ex_logs_1_2 = 3"
    by (simp_all add: count_defs ex_logs_1_2_def ex_log_def)
  have b: "binary64 (of_nat 1) = 1" "binary64 (of_nat 3) = 3"
    by (simp_all add: binary64_eval)
  have q1: "binary64 (1 / 3) = 6004799503160661 / 18014398509481984"
    by (simp add: binary64_eval)
  have q2: "binary64 (6004799503160661 / 18014398509481984 * 100) = 2345624805922133 / 70368744177664"
    by (simp add: binary64_eval)
  have q3: "binary64 (2345624805922133 / 70368744177664 * 100) = 3665038759253333 / 1099511627776"
    by (simp add: binary64_eval)
  have m: "Math_round (3665038759253333 / 1099511627776) = 3333"
    by (simp add: Math_round_def floor_rat_numeral)
  have r: "binary64 (of_int 3333 / 100) = 2345390243441541 / 70368744177664"
    by (simp add: binary64_eval)
  show ?thesis
    unfolding getSuccessRate_def Let_def c b q1 q2 q3 m r by simp
qed

lemma rate_no_logs: "getSuccessRate since ex_initial = 0"
proof -
  have "total_count since ex_initial = 0"
    by (simp add: count_defs ex_initial_def split: option.splits)
  moreover have "binary64 (of_nat 0) = 0"
    by (simp add: binary64_eval)
  ultimately show ?thesis
    by (simp add: getSuccessRate_def Let_def)
qed

subsection \<open>The error of one rounding\<close>

lemma pow2_powi: "pow2 e = 2 powi e"
  by (simp add: pow2_def power_int_def power_one_over inverse_eq_divide)

lemma pow2_pos: "0 < pow2 e"
  by (simp add: pow2_powi zero_less_power_int)

lemma pow2_add: "pow2 (a + b) = pow2 a * pow2 b"
  by (simp add: pow2_powi power_int_add)

lemma pow2_succ: "pow2 (e + 1) = 2 * pow2 e"
  using pow2_add [of e 1] by (simp add: pow2_def [of 1])

lemma pow2_pred: "pow2 (e - 1) = pow2 e / 2"
  using pow2_succ [of "e - 1"] by simp

lemma exponent_lower: "0 < x \<Longrightarrow> pow2 (exponent x) \<le> x"
proof (induction x rule: exponent.induct)
  case (1 x)
  show ?case
  proof (cases "2 \<le> x")
    case True
    with "1.IH"(1) "1.prems" have "pow2 (exponent (x / 2)) \<le> x / 2"
      by simp
    moreover from True have "exponent x = exponent (x / 2) + 1"
      by (subst exponent.simps) simp
    ultimately show ?thesis
      by (simp add: pow2_succ)
  next
    case False
    show ?thesis
    proof (cases "x < 1")
      case True
      with "1.IH"(2) False "1.prems" have "pow2 (exponent (x * 2)) \<le> x * 2"
        by simp
      moreover from True False "1.prems" have "exponent x = exponent (x * 2) - 1"
        by (subst exponent.simps) simp
      ultimately show ?thesis
        by (simp add: pow2_pred)
    next
      case ge: False
      with False have "exponent x = 0"
        by (subst exponent.simps) simp
      with ge show ?thesis
        by (simp add: pow2_def)
    qed
  qed
qed

lemma round_half_even_error: "\<bar>of_int (round_half_even m) - m\<bar> \<le> 1 / 2"
proof -
  have "of_int \<lfloor>m\<rfloor> \<le> m" and "m < of_int \<lfloor>m\<rfloor> + 1"
    by linarith+
  then show ?thesis
    by (auto simp: round_half_even_def)
qed

lemma binary64_error:
  assumes "0 \<le> x"
  shows "\<bar>binary64 x - x\<bar> \<le> x / 9007199254740992"
proof (cases "x = 0")
  case True
  then show ?thesis
    by (simp add: binary64_def round_half_even_def)
next
  case False
  with assms have pos: "0 < x"
    by simp
  define p where "p = pow2 (exponent x - 52)"
  define k where "k = round_half_even (x / p)"
  have p_pos: "0 < p"
    by (simp add: p_def pow2_pos)
  have "p = pow2 (exponent x) * pow2 (- 52)"
    unfolding p_def using pow2_add [of "exponent x" "- 52"] by simp
  then have p_eq: "p = pow2 (exponent x) / 4503599627370496"
    by (simp add: pow2_def)
  have p_le: "p \<le> x / 4503599627370496"
    unfolding p_eq using exponent_lower [OF pos] by (simp add: divide_right_mono)
  have "\<bar>of_int k - x / p\<bar> \<le> 1 / 2"
    unfolding k_def by (rule round_half_even_error)
  then have "\<bar>of_int k - x / p\<bar> * p \<le> 1 / 2 * p"
    using p_pos by (intro mult_right_mono) simp_all
  moreover have "\<bar>of_int k - x / p\<bar> * p = \<bar>of_int k * p - x\<bar>"
  proof -
    have "\<bar>of_int k - x / p\<bar> * p = \<bar>(of_int k - x / p) * p\<bar>"
      using p_pos by (simp add: abs_mult)
    also have "(of_int k - x / p) * p = of_int k * p - x"
      using p_pos by (simp add: field_simps)
    finally show ?thesis .
  qed
  ultimately have "\<bar>of_int k * p - x\<bar> \<le> p / 2"
    by simp
  moreover have "binary64 x = of_int k * p"
    using assms by (simp add: binary64_def k_def p_def)
  ultimately show ?thesis
    using p_le by simp
qed

lemma binary64_nonneg:
  assumes "0 \<le> x"
  shows "0 \<le> binary64 x"
  using binary64_error [OF assms] assms by linarith

subsection \<open>The error of the whole computation\<close>

lemma binary64_ratio:
  assumes "0 \<le> x" and "x \<le> y" and "0 < y"
  shows "0 < binary64 y"
    and "0 \<le> binary64 x / binary64 y"
    and "\<bar>binary64 x / binary64 y - x / y\<bar> \<le> 3 / 9007199254740992"
proof -
  define a where "a = binary64 x"
  define b where "b = binary64 y"
  have a0: "0 \<le> a"
    unfolding a_def using assms(1) by (rule binary64_nonneg)
  have ea: "\<bar>a - x\<bar> \<le> x / 9007199254740992"
    unfolding a_def using assms(1) by (rule binary64_error)
  have eb: "\<bar>b - y\<bar> \<le> y / 9007199254740992"
    unfolding b_def using assms(3) by (intro binary64_error) simp
  have a_up: "a \<le> x * (9007199254740993 / 9007199254740992)"
    using ea by linarith
  have a_lo: "x * (9007199254740991 / 9007199254740992) \<le> a"
    using ea by linarith
  have b_up: "b \<le> y * (9007199254740993 / 9007199254740992)"
    using eb by linarith
  have b_lo: "y * (9007199254740991 / 9007199254740992) \<le> b"
    using eb by linarith
  have b_pos: "0 < b"
    using b_lo assms(3) by linarith
  define z where "z = x / y"
  define w where "w = a / b"
  have eq_up: "(x * (9007199254740993 / 9007199254740992)) / (y * (9007199254740991 / 9007199254740992))
      = z * (9007199254740993 / 9007199254740991)"
    by (simp add: z_def)
  have eq_lo: "(x * (9007199254740991 / 9007199254740992)) / (y * (9007199254740993 / 9007199254740992))
      = z * (9007199254740991 / 9007199254740993)"
    by (simp add: z_def)
  have "a / b \<le> (x * (9007199254740993 / 9007199254740992)) / (y * (9007199254740991 / 9007199254740992))"
    using a0 a_up b_lo assms(3) by (intro frac_le) simp_all
  then have up: "w \<le> z * (9007199254740993 / 9007199254740991)"
    unfolding eq_up w_def .
  have "(x * (9007199254740991 / 9007199254740992)) / (y * (9007199254740993 / 9007199254740992)) \<le> a / b"
    using a_lo b_up b_pos assms(1) by (intro frac_le) simp_all
  then have lo: "z * (9007199254740991 / 9007199254740993) \<le> w"
    unfolding eq_lo w_def .
  have z01: "0 \<le> z" "z \<le> 1"
    using assms by (simp_all add: z_def)
  show "0 < binary64 y"
    using b_pos by (simp add: b_def)
  show "0 \<le> binary64 x / binary64 y"
    using a0 b_pos by (simp add: a_def b_def)
  have "\<bar>w - z\<bar> \<le> 3 / 9007199254740992"
    using up lo z01 by linarith
  then show "\<bar>binary64 x / binary64 y - x / y\<bar> \<le> 3 / 9007199254740992"
    by (simp add: a_def b_def w_def z_def)
qed

lemma sent_le_total: "sent_count since s \<le> total_count since s"
  by (simp add: sent_count_def total_count_def)

lemma getSuccessRate_rounded:
  assumes "total_count since s \<noteq> 0"
  shows "\<exists>m. 0 \<le> m \<and> m \<le> 10000 \<and>
           getSuccessRate since s = binary64 (of_int m / 100) \<and>
           \<bar>rat_of_int m - 10000 * (of_nat (sent_count since s) / of_nat (total_count since s))\<bar>
             \<le> 1 / 2 + 1 / 10 ^ 10 \<and>
           \<bar>getSuccessRate since s
              - 100 * (of_nat (sent_count since s) / of_nat (total_count since s))\<bar>
             \<le> 1 / 200 + 1 / 10 ^ 12"
proof -
  define x :: rat where "x = of_nat (sent_count since s)"
  define y :: rat where "y = of_nat (total_count since s)"
  define q0 where "q0 = binary64 x / binary64 y"
  define q1 where "q1 = binary64 q0"
  define q2 where "q2 = binary64 (q1 * 100)"
  define q3 where "q3 = binary64 (q2 * 100)"
  define m where "m = Math_round q3"
  define r where "r = binary64 (of_int m / 100)"
  have xy: "0 \<le> x" "x \<le> y" "0 < y"
    using assms sent_le_total [of since s] by (simp_all add: x_def y_def)
  define z where "z = x / y"
  have ratio: "0 \<le> z" "z \<le> 1"
    using xy by (simp_all add: z_def)
  have y': "binary64 y \<noteq> 0"
    using binary64_ratio(1) [OF xy] by simp
  have q0: "0 \<le> q0" "\<bar>q0 - z\<bar> \<le> 3 / 9007199254740992"
    unfolding q0_def z_def using binary64_ratio(2,3) [OF xy] by simp_all
  have q1: "0 \<le> q1" "\<bar>q1 - q0\<bar> \<le> q0 / 9007199254740992"
    unfolding q1_def using q0(1) by (rule binary64_nonneg binary64_error)+
  have q1_bound: "q1 \<le> 2" "\<bar>q1 - z\<bar> \<le> 6 / 9007199254740992"
    using q0 q1 ratio by linarith+
  have q1': "0 \<le> q1 * 100"
    using q1(1) by simp
  have q2: "0 \<le> q2" "\<bar>q2 - q1 * 100\<bar> \<le> q1 * 100 / 9007199254740992"
    unfolding q2_def using q1' by (rule binary64_nonneg binary64_error)+
  have q2_bound: "q2 \<le> 101" "\<bar>q2 - 100 * z\<bar> \<le> 801 / 9007199254740992"
    using q1_bound q2 ratio by linarith+
  have q2': "0 \<le> q2 * 100"
    using q2(1) by simp
  have q3: "0 \<le> q3" "\<bar>q3 - q2 * 100\<bar> \<le> q2 * 100 / 9007199254740992"
    unfolding q3_def using q2' by (rule binary64_nonneg binary64_error)+
  have q3_bound: "q3 \<le> 10001" "\<bar>q3 - 10000 * z\<bar> \<le> 90201 / 9007199254740992"
    using q2_bound q3 ratio by linarith+
  have m: "of_int m \<le> q3 + 1 / 2" "q3 + 1 / 2 < of_int m + 1"
    unfolding m_def Math_round_def by linarith+
  have m_lo: "0 \<le> m"
    unfolding m_def Math_round_def using q3(1) by simp
  then have m0: "(0::rat) \<le> of_int m / 100"
    by simp
  have "(of_int m :: rat) < 10001"
    using m(1) q3_bound(2) ratio(2) by linarith
  then have m_up: "m \<le> 10000"
    by simp
  have near: "\<bar>of_int m - 10000 * z\<bar> \<le> 1 / 2 + 1 / 10000000000"
    using m q3_bound(2) by linarith
  have r: "\<bar>r - of_int m / 100\<bar> \<le> of_int m / 100 / 9007199254740992"
    unfolding r_def using m0 by (rule binary64_error)
  have dist: "\<bar>r - 100 * z\<bar> \<le> 1 / 200 + 1 / 1000000000000"
    using r m q3_bound ratio by linarith
  have res: "getSuccessRate since s = r"
    using y' by (simp add: getSuccessRate_def Let_def r_def m_def q3_def q2_def q1_def q0_def x_def y_def)
  have "0 \<le> m \<and> m \<le> 10000 \<and> getSuccessRate since s = binary64 (of_int m / 100) \<and>
      \<bar>of_int m - 10000 * z\<bar> \<le> 1 / 2 + 1 / 10 ^ 10 \<and>
      \<bar>getSuccessRate since s - 100 * z\<bar> \<le> 1 / 200 + 1 / 10 ^ 12"
    using m_lo m_up near dist res by (simp add: r_def)
  then show ?thesis
    unfolding z_def x_def y_def by blast
qed

lemma getSuccessRate_no_logs:
  assumes "total_count since s = 0"
  shows "getSuccessRate since s = 0"
proof -
  have "binary64 0 = 0"
    by (simp add: binary64_def round_half_even_def)
  with assms show ?thesis
    by (simp add: getSuccessRate_def Let_def)
qed

subsection \<open>The claim\<close>

text \<open>
  C8, as stated, fails. With one log of status \<^verbatim>\<open>sent\<close> and two of status \<^verbatim>\<open>failed\<close> the
  function returns the double nearest to 33.33, which is neither the ratio
  \<open>sent_count / total_count = 1 / 3\<close> nor that ratio as a percentage, \<open>100 / 3\<close>.
\<close>

theorem getSuccessRate_counterexample:
  "sent_count None ex_logs_1_2 = 1 \<and> total_count None ex_logs_1_2 = 3 \<and>
   getSuccessRate None ex_logs_1_2 = 2345390243441541 / 70368744177664 \<and>
   getSuccessRate None ex_logs_1_2 \<noteq> 1 / 3 \<and>
   getSuccessRate None ex_logs_1_2 \<noteq> 100 / 3"
  by (simp add: rate_1_2) (simp add: count_defs ex_logs_1_2_def ex_log_def)

text \<open>
  C8, amended. \<^verbatim>\<open>getSuccessRate\<close> returns \<open>sent_count / total_count\<close> over the window as a
  percentage rounded to two decimals. It is 0 when \<open>total_count\<close> is 0. Otherwise it is the
  double nearest to \<open>m / 100\<close> for an integer \<open>m\<close> between 0 and 10000, the number of
  hundredths of a percent: \<open>m\<close> differs from \<open>10000 * sent_count / total_count\<close> by at most
  one half, plus the error of the four roundings of double arithmetic before \<^verbatim>\<open>Math.round\<close>,
  which stays below \<open>10 ^ - 10\<close>; and the result differs from
  \<open>100 * sent_count / total_count\<close> by at most 0.005, the half unit of the second decimal,
  plus the error of all five roundings, which stays below \<open>10 ^ - 12\<close>. In particular, with
  950 logs of status \<^verbatim>\<open>sent\<close> and 50 of status \<^verbatim>\<open>failed\<close> it returns 95, and with no logs it
  returns 0.
\<close>

theorem getSuccessRate_percentage:
  "(total_count since s = 0 \<longrightarrow> getSuccessRate since s = 0) \<and>
   (total_count since s \<noteq> 0 \<longrightarrow>
      (\<exists>m. 0 \<le> m \<and> m \<le> 10000 \<and>
         getSuccessRate since s = binary64 (of_int m / 100) \<and>
         \<bar>rat_of_int m - 10000 * (of_nat (sent_count since s) / of_nat (total_count since s))\<bar>
           \<le> 1 / 2 + 1 / 10 ^ 10 \<and>
         \<bar>getSuccessRate since s
            - 100 * (of_nat (sent_count since s) / of_nat (total_count since s))\<bar>
           \<le> 1 / 200 + 1 / 10 ^ 12)) \<and>
   getSuccessRate None ex_logs_950_50 = 95 \<and>
   getSuccessRate None ex_initial = 0"
  using getSuccessRate_no_logs [of since s] getSuccessRate_rounded [of since s]
    rate_950_50 rate_no_logs [of None]
  by blast

text \<open>
  The theorem at one log of status \<^verbatim>\<open>sent\<close> and two of status \<^verbatim>\<open>failed\<close>: the only integer
  within the bound of \<open>10000 / 3\<close> is 3333, so the theorem gives the double nearest to 33.33;
  and in the window that starts after the three logs it gives 0.
\<close>

theorem getSuccessRate_percentage_witness:
  "total_count None ex_logs_1_2 \<noteq> 0 \<and>
   getSuccessRate None ex_logs_1_2 = binary64 (3333 / 100) \<and>
   \<bar>getSuccessRate None ex_logs_1_2 - 100 * (1 / 3)\<bar> \<le> 1 / 200 + 1 / 10 ^ 12 \<and>
   total_count (Some 6) ex_logs_1_2 = 0 \<and>
   getSuccessRate (Some 6) ex_logs_1_2 = 0"
proof -
  have c: "sent_count None ex_logs_1_2 = 1" "total_count None ex_logs_1_2 = 3"
    "total_count (Some 6) ex_logs_1_2 = 0"
    by (simp_all add: count_defs ex_logs_1_2_def ex_log_def)
  have t: "total_count None ex_logs_1_2 \<noteq> 0"
    by (simp add: c)
  from getSuccessRate_percentage [of None ex_logs_1_2] t
  obtain m where res: "getSuccessRate None ex_logs_1_2 = binary64 (of_int m / 100)"
    and "\<bar>rat_of_int m - 10000 * (of_nat (sent_count None ex_logs_1_2)
            / of_nat (total_count None ex_logs_1_2))\<bar> \<le> 1 / 2 + 1 / 10 ^ 10"
    and "\<bar>getSuccessRate None ex_logs_1_2 - 100 * (of_nat (sent_count None ex_logs_1_2)
            / of_nat (total_count None ex_logs_1_2))\<bar> \<le> 1 / 200 + 1 / 10 ^ 12"
    by blast
  then have near: "\<bar>rat_of_int m - 10000 * (1 / 3)\<bar> \<le> 1 / 2 + 1 / 10000000000"
    and dist: "\<bar>getSuccessRate None ex_logs_1_2 - 100 * (1 / 3)\<bar> \<le> 1 / 200 + 1 / 10 ^ 12"
    unfolding c by simp_all
  from near have "(3332::rat) < of_int m" and "of_int m < (3334::rat)"
    by linarith+
  then have "3332 < m" and "m < 3334"
    by simp_all
  then have "m = 3333"
    by arith
  with res have r: "getSuccessRate None ex_logs_1_2 = binary64 (3333 / 100)"
    by simp
  from getSuccessRate_percentage [of "Some 6" ex_logs_1_2] c(3)
  have z: "getSuccessRate (Some 6) ex_logs_1_2 = 0"
    by blast
  from t c(3) r dist z show ?thesis
    by blast
qed

end
